theory Spec2Isabelle
  imports Main "HOL-Library.Word" "HOL-Library.Sublist"
begin

section \<open>The BioProofConsent ledger (contract BioProofConsent)\<close>

text \<open>
  The ledger is the Solidity contract \<open>BioProofConsent\<close> (pragma \<open>^0.8.17\<close>).
  A \<open>uint256\<close> is a 256-bit word, an \<open>address\<close> a 160-bit word, a Solidity
  \<open>mapping\<close> a total function whose default is the zero value of its range, a
  dynamic storage array a list. A transaction that reverts returns \<open>Inl\<close> and no
  state (the EVM rolls the storage back); a transaction that succeeds returns the
  new state. \<open>msg.sender\<close> and \<open>block.timestamp\<close> are read from an environment
  record. Increments are checked, as in Solidity 0.8: \<open>x++\<close> on the largest
  value is the error \<open>Panic\<close>. Gas is not modelled.
\<close>

type_synonym uint256 = "256 word"
type_synonym address = "160 word"

datatype ConsentStatus = StatusNone | Pending | Granted | Revoked | Expired

record Study =
  owner :: address
  ipfsMetadataHash :: string
  title :: string
  description :: string
  creationDate :: uint256
  active :: bool

record Consent =
  participant :: address
  studyId :: uint256
  ipfsConsentDocHash :: string
  ipfsCredentialHash :: string
  status :: ConsentStatus
  timestamp :: uint256
  expirationDate :: uint256
  specificPermissions :: "string \<Rightarrow> bool"
  permissionKeys :: "string list"

datatype event =
    StudyCreated uint256 address string
  | StudyUpdated uint256 string
  | StudyStatusChanged uint256 bool
  | ConsentRequested uint256 address uint256
  | ConsentGranted uint256 address uint256
  | ConsentRevoked uint256 address uint256
  | PermissionUpdated uint256 string bool

record contract =
  studyCounter :: uint256
  studies :: "uint256 \<Rightarrow> Study"
  participantStudies :: "address \<Rightarrow> uint256 list"
  studyParticipants :: "uint256 \<Rightarrow> address list"
  consentIndex :: "uint256 \<Rightarrow> address \<Rightarrow> uint256"
  consents :: "uint256 \<Rightarrow> Consent"
  consentCounter :: uint256
  emitted :: "event list"

record env =
  msg_sender :: address
  block_timestamp :: uint256

datatype error = Revert string | Panic

text \<open>The zero values of the two structs and the storage of a freshly deployed
  contract (there is no constructor: every slot is zero).\<close>

definition emptyStudy :: Study where
  "emptyStudy = \<lparr>owner = 0, ipfsMetadataHash = [], title = [], description = [],
     creationDate = 0, active = False\<rparr>"

definition emptyConsent :: Consent where
  "emptyConsent = \<lparr>participant = 0, studyId = 0, ipfsConsentDocHash = [],
     ipfsCredentialHash = [], status = StatusNone, timestamp = 0, expirationDate = 0,
     specificPermissions = (\<lambda>_. False), permissionKeys = []\<rparr>"

definition init :: contract where
  "init = \<lparr>studyCounter = 0, studies = (\<lambda>_. emptyStudy),
     participantStudies = (\<lambda>_. []), studyParticipants = (\<lambda>_. []),
     consentIndex = (\<lambda>_ _. 0), consents = (\<lambda>_. emptyConsent),
     consentCounter = 0, emitted = []\<rparr>"

subsection \<open>require and the modifiers\<close>

definition require :: "bool \<Rightarrow> string \<Rightarrow> (error + 'a) \<Rightarrow> error + 'a" where
  "require c msg k = (if c then k else Inl (Revert msg))"

definition onlyStudyOwner :: "env \<Rightarrow> contract \<Rightarrow> uint256 \<Rightarrow> (error + 'a) \<Rightarrow> error + 'a" where
  "onlyStudyOwner e s sid k =
     require (owner (studies s sid) = msg_sender e) ''Not the study owner'' k"

definition onlyParticipant :: "env \<Rightarrow> contract \<Rightarrow> uint256 \<Rightarrow> (error + 'a) \<Rightarrow> error + 'a" where
  "onlyParticipant e s cid k =
     require (participant (consents s cid) = msg_sender e) ''Not the consent owner'' k"

definition studyExists :: "contract \<Rightarrow> uint256 \<Rightarrow> (error + 'a) \<Rightarrow> error + 'a" where
  "studyExists s sid k = require (sid < studyCounter s) ''Study does not exist'' k"

definition studyActive :: "contract \<Rightarrow> uint256 \<Rightarrow> (error + 'a) \<Rightarrow> error + 'a" where
  "studyActive s sid k = require (active (studies s sid)) ''Study is not active'' k"

subsection \<open>Study operations\<close>

definition createStudy ::
  "env \<Rightarrow> contract \<Rightarrow> string \<Rightarrow> string \<Rightarrow> string \<Rightarrow> error + (uint256 \<times> contract)" where
  "createStudy e s metadataHash ttl descr =
     (if studyCounter s = - 1 then Inl Panic
      else
        let newId = studyCounter s;
            s1 = s\<lparr>studyCounter := studyCounter s + 1\<rparr>;
            newStudy = (studies s1 newId)\<lparr>owner := msg_sender e,
              ipfsMetadataHash := metadataHash, title := ttl, description := descr,
              creationDate := block_timestamp e, active := True\<rparr>;
            s2 = s1\<lparr>studies := (studies s1)(newId := newStudy)\<rparr>
        in Inr (newId, s2\<lparr>emitted := emitted s2 @ [StudyCreated newId (msg_sender e) ttl]\<rparr>))"

definition updateStudyMetadata ::
  "env \<Rightarrow> contract \<Rightarrow> uint256 \<Rightarrow> string \<Rightarrow> error + contract" where
  "updateStudyMetadata e s sid metadataHash =
     studyExists s sid (onlyStudyOwner e s sid
       (Inr (s\<lparr>studies := (studies s)(sid := (studies s sid)\<lparr>ipfsMetadataHash := metadataHash\<rparr>),
             emitted := emitted s @ [StudyUpdated sid metadataHash]\<rparr>)))"

definition setStudyActive ::
  "env \<Rightarrow> contract \<Rightarrow> uint256 \<Rightarrow> bool \<Rightarrow> error + contract" where
  "setStudyActive e s sid act =
     studyExists s sid (onlyStudyOwner e s sid
       (Inr (s\<lparr>studies := (studies s)(sid := (studies s sid)\<lparr>active := act\<rparr>),
             emitted := emitted s @ [StudyStatusChanged sid act]\<rparr>)))"

subsection \<open>Consent operations\<close>

definition requestConsent ::
  "env \<Rightarrow> contract \<Rightarrow> uint256 \<Rightarrow> address \<Rightarrow> string \<Rightarrow> uint256 \<Rightarrow> error + (uint256 \<times> contract)" where
  "requestConsent e s sid p docHash expiry =
     studyExists s sid (studyActive s sid (onlyStudyOwner e s sid
       (if consentCounter s = - 1 then Inl Panic
        else
          let newId = consentCounter s;
              s1 = s\<lparr>consentCounter := consentCounter s + 1\<rparr>;
              newConsent = (consents s1 newId)\<lparr>participant := p, studyId := sid,
                ipfsConsentDocHash := docHash, status := Pending,
                timestamp := block_timestamp e, expirationDate := expiry\<rparr>;
              s2 = s1\<lparr>consents := (consents s1)(newId := newConsent)\<rparr>;
              s3 = s2\<lparr>consentIndex := (consentIndex s2)(sid := (consentIndex s2 sid)(p := newId))\<rparr>;
              s4 = s3\<lparr>studyParticipants :=
                     (studyParticipants s3)(sid := studyParticipants s3 sid @ [p])\<rparr>;
              s5 = s4\<lparr>participantStudies :=
                     (participantStudies s4)(p := participantStudies s4 p @ [sid])\<rparr>
          in Inr (newId, s5\<lparr>emitted := emitted s5 @ [ConsentRequested newId p sid]\<rparr>))))"

definition grantConsent ::
  "env \<Rightarrow> contract \<Rightarrow> uint256 \<Rightarrow> string \<Rightarrow> error + contract" where
  "grantConsent e s cid credentialHash =
     onlyParticipant e s cid
       (let consent = consents s cid in
        require (status consent = Pending) ''Consent must be in pending state''
          (let consent' = consent\<lparr>status := Granted, timestamp := block_timestamp e,
                 ipfsCredentialHash := credentialHash\<rparr>;
               granted = Inr (s\<lparr>consents := (consents s)(cid := consent'),
                 emitted := emitted s @
                   [ConsentGranted cid (participant consent') (studyId consent')]\<rparr>)
           in if expirationDate consent > 0
              then require (block_timestamp e < expirationDate consent)
                     ''Consent request has expired'' granted
              else granted))"

definition revokeConsent :: "env \<Rightarrow> contract \<Rightarrow> uint256 \<Rightarrow> error + contract" where
  "revokeConsent e s cid =
     onlyParticipant e s cid
       (let consent = consents s cid in
        require (status consent = Granted) ''Consent must be in granted state''
          (let consent' = consent\<lparr>status := Revoked, timestamp := block_timestamp e\<rparr>
           in Inr (s\<lparr>consents := (consents s)(cid := consent'),
                    emitted := emitted s @
                      [ConsentRevoked cid (participant consent') (studyId consent')]\<rparr>)))"

text \<open>The loop of \<open>updateSpecificPermission\<close>: it walks the key list from index 0
  and stops at the first key whose hash equals the hash of the new key. The hash
  function \<open>keccak256\<close> is a parameter.\<close>

fun permissionExists :: "(string \<Rightarrow> uint256) \<Rightarrow> string list \<Rightarrow> string \<Rightarrow> bool" where
  "permissionExists keccak256 [] key = False"
| "permissionExists keccak256 (k # ks) key =
     (if keccak256 k = keccak256 key then True else permissionExists keccak256 ks key)"

definition updateSpecificPermission ::
  "(string \<Rightarrow> uint256) \<Rightarrow> env \<Rightarrow> contract \<Rightarrow> uint256 \<Rightarrow> string \<Rightarrow> bool \<Rightarrow> error + contract" where
  "updateSpecificPermission keccak256 e s cid key granted =
     onlyParticipant e s cid
       (let consent = consents s cid in
        require (status consent = Granted) ''Consent must be in granted state''
          (let consent1 =
                 (if \<not> permissionExists keccak256 (permissionKeys consent) key
                  then consent\<lparr>permissionKeys := permissionKeys consent @ [key]\<rparr>
                  else consent);
               consent2 = consent1\<lparr>specificPermissions :=
                 (specificPermissions consent1)(key := granted)\<rparr>
           in Inr (s\<lparr>consents := (consents s)(cid := consent2),
                    emitted := emitted s @ [PermissionUpdated cid key granted]\<rparr>)))"

subsection \<open>Views\<close>

definition checkPermission :: "env \<Rightarrow> contract \<Rightarrow> uint256 \<Rightarrow> string \<Rightarrow> error + bool" where
  "checkPermission e s cid key =
     (let consent = consents s cid in
      require (status consent = Granted) ''Consent not granted''
        (if expirationDate consent > 0 \<and> block_timestamp e > expirationDate consent
         then Inr False
         else Inr (specificPermissions consent key)))"

definition getConsentStatus ::
  "env \<Rightarrow> contract \<Rightarrow> uint256 \<Rightarrow> address \<Rightarrow> error + ConsentStatus" where
  "getConsentStatus e s sid p =
     studyExists s sid
       (let cid = consentIndex s sid p in
        if cid = 0 then Inr StatusNone
        else
          let consent = consents s cid in
          if expirationDate consent > 0 \<and> block_timestamp e > expirationDate consent \<and>
             status consent = Granted
          then Inr Expired
          else Inr (status consent))"

definition getParticipantStudies :: "contract \<Rightarrow> address \<Rightarrow> uint256 list" where
  "getParticipantStudies s p = participantStudies s p"

definition getStudyParticipants :: "contract \<Rightarrow> uint256 \<Rightarrow> error + address list" where
  "getStudyParticipants s sid = studyExists s sid (Inr (studyParticipants s sid))"

subsection \<open>Transactions and reachable states\<close>

datatype call =
    CreateStudy string string string
  | UpdateStudyMetadata uint256 string
  | SetStudyActive uint256 bool
  | RequestConsent uint256 address string uint256
  | GrantConsent uint256 string
  | RevokeConsent uint256
  | UpdateSpecificPermission uint256 string bool

fun exec :: "(string \<Rightarrow> uint256) \<Rightarrow> env \<Rightarrow> call \<Rightarrow> contract \<Rightarrow> error + contract" where
  "exec H e (CreateStudy m t d) s = map_sum id snd (createStudy e s m t d)"
| "exec H e (UpdateStudyMetadata sid m) s = updateStudyMetadata e s sid m"
| "exec H e (SetStudyActive sid a) s = setStudyActive e s sid a"
| "exec H e (RequestConsent sid p d x) s = map_sum id snd (requestConsent e s sid p d x)"
| "exec H e (GrantConsent cid h) s = grantConsent e s cid h"
| "exec H e (RevokeConsent cid) s = revokeConsent e s cid"
| "exec H e (UpdateSpecificPermission cid k g) s = updateSpecificPermission H e s cid k g"

text \<open>A state is reachable when some sequence of successful transactions, each with
  its own sender and block time, leads to it from the freshly deployed contract.\<close>

inductive reachable :: "(string \<Rightarrow> uint256) \<Rightarrow> contract \<Rightarrow> bool" for H where
  reachable_init: "reachable H init"
| reachable_step: "reachable H s \<Longrightarrow> exec H e c s = Inr s' \<Longrightarrow> reachable H s'"

text \<open>The invariant behind the lifecycle: the slots below \<open>consentCounter\<close> hold
  the consents created so far, each stored as Pending, Granted or Revoked; the slots
  from \<open>consentCounter\<close> on are still zero.\<close>

definition consent_inv :: "contract \<Rightarrow> bool" where
  "consent_inv s \<longleftrightarrow>
     (\<forall>cid. if cid < consentCounter s
            then status (consents s cid) \<in> {Pending, Granted, Revoked}
            else status (consents s cid) = StatusNone)"

subsection \<open>A run of the contract\<close>

text \<open>One study owner and one participant on a freshly deployed contract: the owner
  creates a study at time 1000 and requests consent at time \<open>t\<close> with deadline
  \<open>expiry\<close>; the participant grants at time \<open>tg\<close>, sets a permission, revokes. Each
  state is what the contract's own function returns on the state before
  (\<open>projr\<close> reads the result of a call that the lemmas below show to succeed).\<close>

definition researcher :: address where "researcher = 10"
definition volunteer :: address where "volunteer = 11"

definition tx_env :: "address \<Rightarrow> uint256 \<Rightarrow> env" where
  "tx_env who t = \<lparr>msg_sender = who, block_timestamp = t\<rparr>"

definition demo_study :: contract where
  "demo_study =
     snd (projr (createStudy (tx_env researcher 1000) init ''QmMeta'' ''Gait'' ''Gait study''))"

definition demo_pending :: "uint256 \<Rightarrow> uint256 \<Rightarrow> contract" where
  "demo_pending t expiry =
     snd (projr (requestConsent (tx_env researcher t) demo_study 0 volunteer ''QmDoc'' expiry))"

definition demo_granted :: "uint256 \<Rightarrow> uint256 \<Rightarrow> uint256 \<Rightarrow> contract" where
  "demo_granted t expiry tg =
     projr (grantConsent (tx_env volunteer tg) (demo_pending t expiry) 0 ''QmCred'')"

definition demo_permitted :: "(string \<Rightarrow> uint256) \<Rightarrow> contract" where
  "demo_permitted H =
     projr (updateSpecificPermission H (tx_env volunteer 1250) (demo_granted 1100 2000 1200) 0
       ''share_biometrics'' True)"

definition demo_revoked :: contract where
  "demo_revoked = projr (revokeConsent (tx_env volunteer 1300) (demo_granted 1100 0 1200) 0)"

definition demo_pending_again :: contract where
  "demo_pending_again =
     snd (projr (requestConsent (tx_env researcher 1400) (demo_pending 1100 0) 0 volunteer
       ''QmDoc2'' 0))"

section \<open>The credential handler (credentialHandler.js)\<close>

text \<open>
  The class \<open>CredentialHandler\<close> is JavaScript. A value is modelled by the
  datatype \<open>js\<close>: the JSON values and \<open>undefined\<close>, an object as the list of
  its own properties in insertion order. A JavaScript number is a double; the
  handler only tests a number for truthiness, and the model has the integers, of
  which 0 is the falsy one. A \<open>throw\<close> is \<open>Inl\<close>; \<open>try { ... } catch { return
  false }\<close> is \<open>catch_false\<close>. What \<open>JSON.stringify\<close>, \<open>ethers\<close> and
  \<open>jsonwebtoken\<close> compute is not code of this repository: the library
  functions the handler calls are the fields of the record \<open>library\<close>, a
  parameter of every function of the handler. \<open>toLowerCase\<close> is modelled on
  the ASCII letters. A string is a list of 8-bit characters.
\<close>

datatype js =
    JUndefined
  | JNull
  | JBool bool
  | JNumber int
  | JString string
  | JArray "js list"
  | JObject "(string \<times> js) list"

datatype js_error = TypeError | Thrown string

definition and_then :: "js_error + 'a \<Rightarrow> ('a \<Rightarrow> js_error + 'b) \<Rightarrow> js_error + 'b" where
  "and_then r f = (case r of Inl e \<Rightarrow> Inl e | Inr x \<Rightarrow> f x)"

definition catch_false :: "js_error + bool \<Rightarrow> js_error + bool" where
  "catch_false r = (case r of Inl e \<Rightarrow> Inr False | Inr b \<Rightarrow> Inr b)"

text \<open>Reading a property: \<open>undefined\<close> and \<open>null\<close> throw a TypeError, an
  object yields the property or \<open>undefined\<close>, and any other value yields
  \<open>undefined\<close> for the names the handler reads (\<open>proof\<close>, \<open>type\<close>, \<open>jws\<close>,
  \<open>jwt\<close>, \<open>iss\<close>, \<open>issuer\<close>, \<open>expirationDate\<close>: none is a built-in
  property of a string, a number, a boolean or an array).\<close>

fun getProp :: "js \<Rightarrow> string \<Rightarrow> js_error + js" where
  "getProp JUndefined k = Inl TypeError"
| "getProp JNull k = Inl TypeError"
| "getProp (JObject kvs) k = Inr (case map_of kvs k of Some v \<Rightarrow> v | None \<Rightarrow> JUndefined)"
| "getProp v k = Inr JUndefined"

fun truthy :: "js \<Rightarrow> bool" where
  "truthy JUndefined = False"
| "truthy JNull = False"
| "truthy (JBool b) = b"
| "truthy (JNumber n) = (n \<noteq> 0)"
| "truthy (JString s) = (s \<noteq> [])"
| "truthy (JArray xs) = True"
| "truthy (JObject kvs) = True"

text \<open>\<open>===\<close>: primitives are compared by value; two objects or arrays are equal only
  when they are the same reference, which a decoded token and a credential never
  are.\<close>

fun strict_eq :: "js \<Rightarrow> js \<Rightarrow> bool" where
  "strict_eq JUndefined JUndefined = True"
| "strict_eq JNull JNull = True"
| "strict_eq (JBool a) (JBool b) = (a = b)"
| "strict_eq (JNumber a) (JNumber b) = (a = b)"
| "strict_eq (JString a) (JString b) = (a = b)"
| "strict_eq a b = False"

text \<open>\<open>n.toString()\<close> for an integer id: decimal notation, which JavaScript uses
  for integers of magnitude below \<open>10^21\<close>.\<close>

fun digits :: "nat \<Rightarrow> string" where
  "digits n =
     (if n < 10 then [char_of (48 + n)] else digits (n div 10) @ [char_of (48 + n mod 10)])"

definition toString :: "int \<Rightarrow> string" where
  "toString i = (if i < 0 then CHR ''-'' # digits (nat (- i)) else digits (nat i))"

text \<open>\<open>{ ...v }\<close> copies the own properties of a value: the properties of an
  object, the elements of an array and the characters of a string under their
  indices, nothing for any other value.\<close>

fun spread :: "js \<Rightarrow> (string \<times> js) list" where
  "spread (JObject kvs) = kvs"
| "spread (JArray xs) = zip (map digits [0..<length xs]) xs"
| "spread (JString s) = zip (map digits [0..<length s]) (map (\<lambda>c. JString [c]) s)"
| "spread v = []"

definition delete :: "string \<Rightarrow> (string \<times> js) list \<Rightarrow> (string \<times> js) list" where
  "delete k kvs = filter (\<lambda>(k', v). k' \<noteq> k) kvs"

definition lower_char :: "char \<Rightarrow> char" where
  "lower_char c =
     (let n = (of_char c :: nat) in if 65 \<le> n \<and> n \<le> 90 then char_of (n + 32) else c)"

definition toLowerCase :: "string \<Rightarrow> string" where
  "toLowerCase s = map lower_char s"

fun split :: "char \<Rightarrow> string \<Rightarrow> string list" where
  "split sep [] = [[]]"
| "split sep (c # cs) =
     (if c = sep then [] # split sep cs
      else (case split sep cs of [] \<Rightarrow> [[c]] | w # ws \<Rightarrow> (c # w) # ws))"

text \<open>\<open>v.startsWith(lit)\<close>, \<open>v.split(sep)[i]\<close> and \<open>v.toLowerCase()\<close> on a
  value that may not be a string: calling a method that the value does not have
  throws a TypeError; an index past the end of an array reads \<open>undefined\<close>.\<close>

definition startsWith :: "js \<Rightarrow> string \<Rightarrow> js_error + bool" where
  "startsWith v lit = (case v of JString s \<Rightarrow> Inr (prefix lit s) | _ \<Rightarrow> Inl TypeError)"

definition split_at :: "js \<Rightarrow> char \<Rightarrow> nat \<Rightarrow> js_error + js" where
  "split_at v sep i =
     (case v of
        JString s \<Rightarrow>
          (let parts = split sep s in
           Inr (if i < length parts then JString (parts ! i) else JUndefined))
      | _ \<Rightarrow> Inl TypeError)"

definition js_toLowerCase :: "js \<Rightarrow> js_error + string" where
  "js_toLowerCase v = (case v of JString s \<Rightarrow> Inr (toLowerCase s) | _ \<Rightarrow> Inl TypeError)"

text \<open>An \<open>ethers.Wallet\<close>: its address and its \<open>signMessage\<close>, which maps the
  bytes of a digest to a signature.\<close>

record Wallet =
  wallet_address :: string
  wallet_signMessage :: "string \<Rightarrow> string"

record library =
  JSON_stringify :: "js \<Rightarrow> string"
  utils_keccak256 :: "string \<Rightarrow> string"
  utils_verifyMessage :: "string \<Rightarrow> js \<Rightarrow> js_error + string"
  utils_getAddress :: "string \<Rightarrow> js_error + string"
  new_Wallet :: "string \<Rightarrow> js_error + Wallet"
  jwt_verify :: "js \<Rightarrow> js_error + js"

definition verifyEthereumSignature_try :: "library \<Rightarrow> js \<Rightarrow> js_error + bool" where
  "verifyEthereumSignature_try lib credential =
     (let credentialCopy = spread credential in
      and_then (getProp (JObject credentialCopy) ''proof'') (\<lambda>p.
        let proofObj = spread p;
            credentialCopy' = delete ''proof'' credentialCopy;
            credentialString = JSON_stringify lib (JObject credentialCopy');
            messageHash = utils_keccak256 lib credentialString
        in
        and_then (getProp (JObject proofObj) ''jws'') (\<lambda>jws.
        and_then (utils_verifyMessage lib messageHash jws) (\<lambda>recoveredAddress.
        and_then (getProp credential ''issuer'') (\<lambda>issuerDid.
        and_then (startsWith issuerDid ''did:ethr:'') (\<lambda>ethr.
          if ethr then
            and_then (split_at issuerDid CHR '':'' 2) (\<lambda>issuerAddress.
            and_then (js_toLowerCase issuerAddress) (\<lambda>lowered.
              Inr (toLowerCase recoveredAddress = lowered)))
          else Inr False))))))"

definition verifyEthereumSignature :: "library \<Rightarrow> js \<Rightarrow> js_error + bool" where
  "verifyEthereumSignature lib credential =
     catch_false (verifyEthereumSignature_try lib credential)"

definition verifyJwtProof_try :: "library \<Rightarrow> js \<Rightarrow> js_error + bool" where
  "verifyJwtProof_try lib credential =
     and_then (getProp credential ''proof'') (\<lambda>p.
     and_then (getProp p ''jwt'') (\<lambda>jwtToken.
     and_then (jwt_verify lib jwtToken) (\<lambda>decoded.
     and_then (getProp decoded ''iss'') (\<lambda>iss.
     and_then (getProp credential ''issuer'') (\<lambda>issuer.
       Inr (strict_eq iss issuer))))))"

definition verifyJwtProof :: "library \<Rightarrow> js \<Rightarrow> js_error + bool" where
  "verifyJwtProof lib credential = catch_false (verifyJwtProof_try lib credential)"

definition verifyCredential_try :: "library \<Rightarrow> js \<Rightarrow> js_error + bool" where
  "verifyCredential_try lib credential =
     and_then (getProp credential ''proof'') (\<lambda>p.
       if \<not> truthy p then Inr False
       else
         and_then (getProp credential ''proof'') (\<lambda>p1.
         and_then (getProp p1 ''type'') (\<lambda>t1.
           if t1 = JString ''JwtProof2020'' then verifyJwtProof lib credential
           else
             and_then (getProp credential ''proof'') (\<lambda>p2.
             and_then (getProp p2 ''type'') (\<lambda>t2.
               if t2 = JString ''EcdsaSecp256k1Signature2019''
               then verifyEthereumSignature lib credential
               else Inr False)))))"

definition verifyCredential :: "library \<Rightarrow> js \<Rightarrow> js_error + bool" where
  "verifyCredential lib credential = catch_false (verifyCredential_try lib credential)"


subsection \<open>Issuing: createConsentCredential and _createProof\<close>

text \<open>The handler holds the wallet and the issuer identity, both \<open>null\<close> until
  \<open>init\<close> has read a private key from the environment.\<close>

record handler =
  wallet :: "Wallet option"
  issuerDid :: "string option"

record process_env =
  ISSUER_PRIVATE_KEY :: "string option"
  ISSUER_DID :: "string option"

text \<open>An environment variable that is unset or empty is falsy. A \<open>Wallet\<close>
  constructor that throws is caught, and the handler stays uninitialised.\<close>

definition handler_init :: "library \<Rightarrow> process_env \<Rightarrow> handler" where
  "handler_init lib env =
     (case ISSUER_PRIVATE_KEY env of
        None \<Rightarrow> \<lparr>wallet = None, issuerDid = None\<rparr>
      | Some k \<Rightarrow>
          if k = [] then \<lparr>wallet = None, issuerDid = None\<rparr>
          else
            (case new_Wallet lib k of
               Inl e \<Rightarrow> \<lparr>wallet = None, issuerDid = None\<rparr>
             | Inr w \<Rightarrow>
                 \<lparr>wallet = Some w,
                  issuerDid = Some (case ISSUER_DID env of
                      None \<Rightarrow> ''did:ethr:'' @ wallet_address w
                    | Some d \<Rightarrow> if d = [] then ''did:ethr:'' @ wallet_address w else d)\<rparr>))"

text \<open>Writing a property: an existing name keeps its place and takes the new value,
  a new name goes last. \<open>{ ...fields, ...src }\<close> writes the properties of
  \<open>src\<close> one by one. (JavaScript enumerates names that are array indices before
  all others; the model keeps the order of insertion throughout.)\<close>

definition set_prop :: "string \<Rightarrow> js \<Rightarrow> (string \<times> js) list \<Rightarrow> (string \<times> js) list" where
  "set_prop k v kvs =
     (if k \<in> fst ` set kvs then map (\<lambda>(k', v'). if k' = k then (k', v) else (k', v')) kvs
      else kvs @ [(k, v)])"

definition assign :: "(string \<times> js) list \<Rightarrow> (string \<times> js) list \<Rightarrow> (string \<times> js) list" where
  "assign kvs src = foldl (\<lambda>acc (k, v). set_prop k v acc) kvs src"

definition createProof :: "library \<Rightarrow> handler \<Rightarrow> string \<Rightarrow> js \<Rightarrow> js_error + js" where
  "createProof lib h created credential =
     (let credentialCopy = delete ''proof'' (spread credential);
          credentialString = JSON_stringify lib (JObject credentialCopy);
          messageHash = utils_keccak256 lib credentialString
      in case wallet h of
           None \<Rightarrow> Inl TypeError
         | Some w \<Rightarrow>
             let signature = wallet_signMessage w messageHash in
             Inr (JObject
               [(''type'', JString ''EcdsaSecp256k1Signature2019''),
                (''created'', JString created),
                (''proofPurpose'', JString ''assertionMethod''),
                (''verificationMethod'',
                   JString ((case issuerDid h of None \<Rightarrow> ''null'' | Some d \<Rightarrow> d) @ ''#keys-1'')),
                (''jws'', JString signature)]))"

text \<open>\<open>createConsentCredential\<close>. The fresh UUID and the two readings of the clock
  (\<open>timestampIso\<close> here, \<open>created\<close> in \<open>_createProof\<close>) are arguments. An
  \<open>additionalData\<close> that is \<open>undefined\<close> takes the default \<open>{}\<close>.\<close>

definition createConsentCredential ::
  "library \<Rightarrow> handler \<Rightarrow> string \<Rightarrow> string \<Rightarrow> string \<Rightarrow>
   string \<Rightarrow> int \<Rightarrow> int \<Rightarrow> js \<Rightarrow> js_error + js" where
  "createConsentCredential lib h uuid timestampIso created
       participantAddress consentId_n studyId_n additionalData0 =
     (let additionalData = (if additionalData0 = JUndefined then JObject [] else additionalData0)
      in
      if wallet h = None then Inl (Thrown ''Credential issuer not initialized'')
      else
        and_then (utils_getAddress lib participantAddress) (\<lambda>normalizedParticipantAddress.
        let credentialId = ''urn:uuid:'' @ uuid in
        and_then (getProp additionalData ''expirationDate'') (\<lambda>expirationDate.
        let credential = JObject
              [(''@context'', JArray [JString ''https://www.w3.org/2018/credentials/v1'',
                  JString ''https://schema.org'',
                  JString ''https://bioproof.io/credentials/v1'']),
               (''id'', JString credentialId),
               (''type'', JArray [JString ''VerifiableCredential'',
                  JString ''BiometricConsentCredential'']),
               (''issuer'', (case issuerDid h of None \<Rightarrow> JNull | Some d \<Rightarrow> JString d)),
               (''issuanceDate'', JString timestampIso),
               (''expirationDate'', (if truthy expirationDate then expirationDate else JUndefined)),
               (''credentialSubject'', JObject (assign
                  [(''id'', JString (''did:ethr:'' @ normalizedParticipantAddress)),
                   (''type'', JString ''BiometricConsent''),
                   (''consentId'', JString (toString consentId_n)),
                   (''studyId'', JString (toString studyId_n)),
                   (''grantedAt'', JString timestampIso)]
                  (spread additionalData)))]
        in
        and_then (createProof lib h created credential) (\<lambda>proofObj.
          Inr (JObject (set_prop ''proof'' proofObj (spread credential)))))))"

text \<open>Modelled from the spec: what \<open>keccak256\<close>, \<open>Wallet.signMessage\<close> and
  \<open>verifyMessage\<close> of the ethers library guarantee (the library is not part of
  the sources). The spec asks for a collision-resistant hash and for a verifier that
  recovers the signer identity from the signature over that hash. As laws of a
  library and a wallet, in the symbolic idealisation of cryptography: the digest has
  no collisions; \<open>verifyMessage\<close> on a digest and the wallet's signature over
  that digest returns the wallet's address; on any other digest it does not return
  that address (in any letter case).\<close>

definition signing_laws :: "library \<Rightarrow> Wallet \<Rightarrow> bool" where
  "signing_laws lib w \<longleftrightarrow>
     inj (utils_keccak256 lib) \<and>
     (\<forall>d. utils_verifyMessage lib d (JString (wallet_signMessage w d))
            = Inr (wallet_address w)) \<and>
     (\<forall>d d' a. d' \<noteq> d \<and>
        utils_verifyMessage lib d' (JString (wallet_signMessage w d)) = Inr a \<longrightarrow>
        toLowerCase a \<noteq> toLowerCase (wallet_address w))"

text \<open>The issuer identity names the wallet: it is a \<open>did:ethr:\<close> identity whose
  address part is the wallet's address, up to letter case. This is the identity
  that \<open>init\<close> derives from the key when \<open>ISSUER_DID\<close> is not set.\<close>

definition issuer_names_wallet :: "string \<Rightarrow> Wallet \<Rightarrow> bool" where
  "issuer_names_wallet did w \<longleftrightarrow>
     prefix ''did:ethr:'' did \<and>
     toLowerCase (split CHR '':'' did ! 2) = toLowerCase (wallet_address w)"

text \<open>An instance of the laws for the examples, with digest and signature written
  out symbolically: the digest of \<open>s\<close> is \<open>0x\<close> followed by \<open>s\<close>, the
  signature over a digest \<open>d\<close> is \<open>sig:\<close> followed by \<open>d\<close>, and
  \<open>verifyMessage\<close> returns the wallet's address for exactly that signature. The
  serializer writes every property of a value.\<close>

primrec demo_stringify :: "js \<Rightarrow> string" where
  "demo_stringify JUndefined = ''undefined''"
| "demo_stringify JNull = ''null''"
| "demo_stringify (JBool b) = (if b then ''true'' else ''false'')"
| "demo_stringify (JNumber i) = toString i"
| "demo_stringify (JString s) = CHR 0x22 # s @ [CHR 0x22]"
| "demo_stringify (JArray xs) =
     ''['' @ concat (map (\<lambda>s. s @ '','') (map demo_stringify xs)) @ '']''"
| "demo_stringify (JObject kvs) =
     ''{'' @ concat (map (\<lambda>(k, s). k @ '':'' @ s @ '','')
                     (map (map_prod id demo_stringify) kvs)) @ ''}''"

definition ideal_wallet :: Wallet where
  "ideal_wallet =
     \<lparr>wallet_address = ''0xAbCdEf'', wallet_signMessage = (\<lambda>d. ''sig:'' @ d)\<rparr>"

definition ideal_lib :: library where
  "ideal_lib = \<lparr>JSON_stringify = demo_stringify, utils_keccak256 = (\<lambda>s. ''0x'' @ s),
     utils_verifyMessage = (\<lambda>d sig.
       if sig = JString (''sig:'' @ d) then Inr ''0xAbCdEf''
       else Inl (Thrown ''invalid signature'')),
     utils_getAddress = (\<lambda>a. if a = [] then Inl (Thrown ''invalid address'') else Inr a),
     new_Wallet = (\<lambda>k. if k = ''key'' then Inr ideal_wallet
                       else Inl (Thrown ''invalid private key'')),
     jwt_verify = (\<lambda>t. Inl (Thrown ''jwt malformed''))\<rparr>"

definition demo_handler :: handler where
  "demo_handler =
     handler_init ideal_lib \<lparr>ISSUER_PRIVATE_KEY = Some ''key'', ISSUER_DID = None\<rparr>"

definition demo_issued :: js where
  "demo_issued = projr (createConsentCredential ideal_lib demo_handler ''uuid-1''
     ''2025-01-01T00:00:00.000Z'' ''2025-01-01T00:00:01.000Z'' ''0xB0b'' 0 0
     (JObject [(''purpose'', JString ''research'')]))"

definition demo_tampered :: js where
  "demo_tampered =
     JObject (map (\<lambda>(k, v). if k = ''credentialSubject''
                              then (k, JObject (set_prop ''studyId'' (JString ''7'') (spread v)))
                              else (k, v))
                  (spread demo_issued))"

text \<open>A library instance and a credential for the examples: the signature
  \<open>0xgood\<close> recovers the mixed-case address \<open>0xAbCdEf\<close>, any other signature
  is malformed.\<close>

definition demo_lib :: library where
  "demo_lib = \<lparr>JSON_stringify = (\<lambda>v. ''{}''), utils_keccak256 = (\<lambda>s. ''0x00''),
     utils_verifyMessage = (\<lambda>h sig.
       if sig = JString ''0xgood'' then Inr ''0xAbCdEf'' else Inl (Thrown ''invalid signature'')),
     utils_getAddress = (\<lambda>a. Inl (Thrown ''invalid address'')),
     new_Wallet = (\<lambda>k. Inl (Thrown ''invalid private key'')),
     jwt_verify = (\<lambda>t. Inl (Thrown ''jwt malformed''))\<rparr>"

definition demo_credential :: "string \<Rightarrow> string \<Rightarrow> string \<Rightarrow> js" where
  "demo_credential issuer ptype sig =
     JObject [(''id'', JString ''urn:uuid:1''), (''issuer'', JString issuer),
       (''credentialSubject'', JObject [(''consentId'', JString ''0'')]),
       (''proof'', JObject [(''type'', JString ptype), (''jws'', JString sig)])]"

section \<open>Properties of the ledger\<close>

lemmas modifier_defs =
  require_def onlyStudyOwner_def onlyParticipant_def studyExists_def studyActive_def

lemmas demo_defs = researcher_def volunteer_def tx_env_def demo_study_def demo_pending_def
  demo_granted_def demo_revoked_def demo_permitted_def demo_pending_again_def
  init_def emptyStudy_def emptyConsent_def createStudy_def requestConsent_def
  grantConsent_def revokeConsent_def updateSpecificPermission_def modifier_defs Let_def

subsection \<open>What each successful transaction writes\<close>

lemma createStudy_effect:
  "createStudy e s m t d = Inr (i, s') \<Longrightarrow>
     i = studyCounter s \<and> studyCounter s' = studyCounter s + 1 \<and> studyCounter s \<noteq> - 1 \<and>
     consents s' = consents s \<and> consentCounter s' = consentCounter s \<and>
     consentIndex s' = consentIndex s"
  by (auto simp: createStudy_def Let_def split: if_splits)

lemma updateStudyMetadata_effect:
  "updateStudyMetadata e s sid m = Inr s' \<Longrightarrow>
     consents s' = consents s \<and> consentCounter s' = consentCounter s \<and>
     consentIndex s' = consentIndex s \<and> studyCounter s' = studyCounter s"
  by (auto simp: updateStudyMetadata_def modifier_defs split: if_splits)

lemma setStudyActive_effect:
  "setStudyActive e s sid a = Inr s' \<Longrightarrow>
     consents s' = consents s \<and> consentCounter s' = consentCounter s \<and>
     consentIndex s' = consentIndex s \<and> studyCounter s' = studyCounter s"
  by (auto simp: setStudyActive_def modifier_defs split: if_splits)

lemma requestConsent_effect:
  "requestConsent e s sid p d x = Inr (c, s') \<Longrightarrow>
     c = consentCounter s \<and> consentCounter s' = consentCounter s + 1 \<and>
     consentCounter s \<noteq> - 1 \<and>
     sid < studyCounter s \<and> studyCounter s' = studyCounter s \<and>
     studyParticipants s' = (studyParticipants s)(sid := studyParticipants s sid @ [p]) \<and>
     participantStudies s' = (participantStudies s)(p := participantStudies s p @ [sid]) \<and>
     consentIndex s' = (consentIndex s)(sid := (consentIndex s sid)(p := c)) \<and>
     consents s' = (consents s)(c := (consents s c)\<lparr>participant := p, studyId := sid,
        ipfsConsentDocHash := d, status := Pending, timestamp := block_timestamp e,
        expirationDate := x\<rparr>)"
  by (auto simp: requestConsent_def modifier_defs Let_def split: if_splits)

lemma grantConsent_effect:
  "grantConsent e s cid h = Inr s' \<Longrightarrow>
   participant (consents s cid) = msg_sender e \<and> status (consents s cid) = Pending \<and>
   s' = s\<lparr>consents := (consents s)(cid := (consents s cid)\<lparr>status := Granted,
          timestamp := block_timestamp e, ipfsCredentialHash := h\<rparr>),
        emitted := emitted s @
          [ConsentGranted cid (participant (consents s cid)) (studyId (consents s cid))]\<rparr>"
  by (auto simp: grantConsent_def modifier_defs Let_def split: if_splits)

lemma revokeConsent_effect:
  "revokeConsent e s cid = Inr s' \<Longrightarrow>
   participant (consents s cid) = msg_sender e \<and> status (consents s cid) = Granted \<and>
   s' = s\<lparr>consents := (consents s)(cid := (consents s cid)\<lparr>status := Revoked,
          timestamp := block_timestamp e\<rparr>),
        emitted := emitted s @
          [ConsentRevoked cid (participant (consents s cid)) (studyId (consents s cid))]\<rparr>"
  by (auto simp: revokeConsent_def modifier_defs Let_def split: if_splits)

lemma updateSpecificPermission_effect:
  "updateSpecificPermission H e s cid k g = Inr s' \<Longrightarrow>
     participant (consents s cid) = msg_sender e \<and> status (consents s cid) = Granted \<and>
     consentCounter s' = consentCounter s \<and> consentIndex s' = consentIndex s \<and>
     studyCounter s' = studyCounter s \<and>
     (\<forall>c. c \<noteq> cid \<longrightarrow> consents s' c = consents s c) \<and>
     status (consents s' cid) = Granted"
  by (auto simp: updateSpecificPermission_def modifier_defs Let_def split: if_splits)

subsection \<open>The run\<close>

lemma demo_study_created:
  "createStudy (tx_env researcher 1000) init ''QmMeta'' ''Gait'' ''Gait study''
     = Inr (0, demo_study)"
  by (simp add: demo_defs)

lemma demo_pending_requested:
  "requestConsent (tx_env researcher t) demo_study 0 volunteer ''QmDoc'' expiry
     = Inr (0, demo_pending t expiry)"
  by (simp add: demo_defs)

lemma demo_pending_consent:
  "consents (demo_pending t expiry) 0 = \<lparr>participant = volunteer, studyId = 0,
     ipfsConsentDocHash = ''QmDoc'', ipfsCredentialHash = [], status = Pending,
     timestamp = t, expirationDate = expiry,
     specificPermissions = (\<lambda>_. False), permissionKeys = []\<rparr>"
  by (simp add: demo_defs)

lemma demo_granted_ok:
  "grantConsent (tx_env volunteer 1200) (demo_pending t 2000) 0 ''QmCred''
     = Inr (demo_granted t 2000 1200)"
  "grantConsent (tx_env volunteer 1200) (demo_pending t 0) 0 ''QmCred''
     = Inr (demo_granted t 0 1200)"
  by (simp_all add: demo_defs)

subsection \<open>Granting\<close>

text \<open>
  Claim C2. \<open>grantConsent\<close> succeeds exactly when the caller is the consent's
  participant, the stored status is Pending, and the deadline is 0 or the block time
  is strictly before it. A pending request of the participant whose nonzero deadline
  has been reached fails with the revert ``Consent request has expired''; a failing
  call returns no state, so the stored status is still Pending. On success the stored
  status is Granted, the credential reference is the one passed in, and the
  timestamp is the block time.
\<close>

theorem grantConsent_spec:
  "((\<exists>s'. grantConsent e s cid h = Inr s') \<longleftrightarrow>
      (participant (consents s cid) = msg_sender e \<and> status (consents s cid) = Pending \<and>
       (expirationDate (consents s cid) = 0 \<or>
        block_timestamp e < expirationDate (consents s cid)))) \<and>
   (participant (consents s cid) = msg_sender e \<and> status (consents s cid) = Pending \<and>
    expirationDate (consents s cid) \<noteq> 0 \<and>
    \<not> block_timestamp e < expirationDate (consents s cid) \<longrightarrow>
      grantConsent e s cid h = Inl (Revert ''Consent request has expired'')) \<and>
   (\<forall>s'. grantConsent e s cid h = Inr s' \<longrightarrow>
      status (consents s' cid) = Granted \<and> ipfsCredentialHash (consents s' cid) = h \<and>
      timestamp (consents s' cid) = block_timestamp e)"
proof (intro conjI allI impI)
  show "(\<exists>s'. grantConsent e s cid h = Inr s') \<longleftrightarrow>
      (participant (consents s cid) = msg_sender e \<and> status (consents s cid) = Pending \<and>
       (expirationDate (consents s cid) = 0 \<or>
        block_timestamp e < expirationDate (consents s cid)))"
    by (auto simp: grantConsent_def modifier_defs Let_def word_greater_zero_iff)
next
  assume "participant (consents s cid) = msg_sender e \<and> status (consents s cid) = Pending \<and>
    expirationDate (consents s cid) \<noteq> 0 \<and>
    \<not> block_timestamp e < expirationDate (consents s cid)"
  then show "grantConsent e s cid h = Inl (Revert ''Consent request has expired'')"
    by (simp add: grantConsent_def modifier_defs Let_def word_greater_zero_iff)
next
  fix s' assume g: "grantConsent e s cid h = Inr s'"
  from grantConsent_effect [OF g]
  show "status (consents s' cid) = Granted" "ipfsCredentialHash (consents s' cid) = h"
    "timestamp (consents s' cid) = block_timestamp e"
    by simp_all
qed

theorem grantConsent_spec_witness:
  "grantConsent (tx_env volunteer 1200) (demo_pending 1100 2000) 0 ''QmCred''
     = Inr (demo_granted 1100 2000 1200) \<and>
   status (consents (demo_granted 1100 2000 1200) 0) = Granted \<and>
   ipfsCredentialHash (consents (demo_granted 1100 2000 1200) 0) = ''QmCred'' \<and>
   timestamp (consents (demo_granted 1100 2000 1200) 0) = 1200 \<and>
   grantConsent (tx_env volunteer 2500) (demo_pending 1100 2000) 0 ''QmCred''
     = Inl (Revert ''Consent request has expired'') \<and>
   status (consents (demo_pending 1100 2000) 0) = Pending \<and>
   (\<nexists>s'. grantConsent (tx_env researcher 1200) (demo_pending 1100 2000) 0 ''QmCred'' = Inr s')"
proof -
  have c: "consents (demo_pending 1100 2000) 0 = \<lparr>participant = volunteer, studyId = 0,
     ipfsConsentDocHash = ''QmDoc'', ipfsCredentialHash = [], status = Pending,
     timestamp = 1100, expirationDate = 2000,
     specificPermissions = (\<lambda>_. False), permissionKeys = []\<rparr>"
    by (rule demo_pending_consent)
  have g: "grantConsent (tx_env volunteer 1200) (demo_pending 1100 2000) 0 ''QmCred''
     = Inr (demo_granted 1100 2000 1200)"
    by (rule demo_granted_ok)
  from g grantConsent_spec [of "tx_env volunteer 1200" "demo_pending 1100 2000" 0 "''QmCred''"]
  have ok: "status (consents (demo_granted 1100 2000 1200) 0) = Granted \<and>
   ipfsCredentialHash (consents (demo_granted 1100 2000 1200) 0) = ''QmCred'' \<and>
   timestamp (consents (demo_granted 1100 2000 1200) 0) = 1200"
    by (simp add: tx_env_def)
  from c grantConsent_spec [of "tx_env volunteer 2500" "demo_pending 1100 2000" 0 "''QmCred''"]
  have late: "grantConsent (tx_env volunteer 2500) (demo_pending 1100 2000) 0 ''QmCred''
     = Inl (Revert ''Consent request has expired'')"
    by (simp add: tx_env_def)
  from c grantConsent_spec [of "tx_env researcher 1200" "demo_pending 1100 2000" 0 "''QmCred''"]
  have other:
    "\<nexists>s'. grantConsent (tx_env researcher 1200) (demo_pending 1100 2000) 0 ''QmCred'' = Inr s'"
    by (simp add: tx_env_def researcher_def volunteer_def)
  from g ok late other c show ?thesis by simp
qed

subsection \<open>The lifecycle of a consent\<close>

lemma word_less_succ: "(c::uint256) \<noteq> - 1 \<Longrightarrow> (x < c + 1) = (x \<le> c)"
proof
  assume "x < c + 1" then show "x \<le> c" by (rule less_inc_imp_less_eq)
next
  assume c: "c \<noteq> - 1" and "x \<le> c"
  from c have "c < c + 1" using inc_less_eq_self_iff_eq [of c] by (simp add: not_le)
  with \<open>x \<le> c\<close> show "x < c + 1" by simp
qed

lemma exec_status:
  assumes "exec H e c s = Inr s'"
  shows "consentCounter s' = consentCounter s \<and>
           (consents s' cid = consents s cid \<or>
            status (consents s cid) = Pending \<and> status (consents s' cid) = Granted \<or>
            status (consents s cid) = Granted \<and> status (consents s' cid) = Revoked \<or>
            status (consents s cid) = Granted \<and> status (consents s' cid) = Granted)
         \<or> consentCounter s \<noteq> - 1 \<and> consentCounter s' = consentCounter s + 1 \<and>
           (if cid = consentCounter s then status (consents s' cid) = Pending
            else consents s' cid = consents s cid)"
proof (cases c)
  case (CreateStudy m t d)
  with assms obtain i where "createStudy e s m t d = Inr (i, s')"
    by (cases "createStudy e s m t d") auto
  from createStudy_effect [OF this] show ?thesis by simp
next
  case (UpdateStudyMetadata sid m)
  with assms updateStudyMetadata_effect [of e s sid m s'] show ?thesis by simp
next
  case (SetStudyActive sid a)
  with assms setStudyActive_effect [of e s sid a s'] show ?thesis by simp
next
  case (RequestConsent sid p d x)
  with assms obtain i where "requestConsent e s sid p d x = Inr (i, s')"
    by (cases "requestConsent e s sid p d x") auto
  from requestConsent_effect [OF this] show ?thesis by simp
next
  case (GrantConsent i h)
  with assms grantConsent_effect [of e s i h s'] show ?thesis
    by (cases "cid = i") auto
next
  case (RevokeConsent i)
  with assms revokeConsent_effect [of e s i s'] show ?thesis
    by (cases "cid = i") auto
next
  case (UpdateSpecificPermission i k g)
  with assms updateSpecificPermission_effect [of H e s i k g s'] show ?thesis
    by (cases "cid = i") auto
qed

lemma consent_inv_init: "consent_inv init"
  by (simp add: consent_inv_def init_def emptyConsent_def)

lemma consent_inv_slot:
  "consent_inv s \<Longrightarrow>
     (if cid < consentCounter s
      then status (consents s cid) \<in> {Pending, Granted, Revoked}
      else status (consents s cid) = StatusNone)"
  unfolding consent_inv_def by (rule spec)

lemma consent_inv_exec:
  assumes inv: "consent_inv s" and ex: "exec H e c s = Inr s'"
  shows "consent_inv s'"
  unfolding consent_inv_def
proof
  fix cid
  from exec_status [OF ex, of cid] consent_inv_slot [OF inv, of cid]
  show "if cid < consentCounter s'
            then status (consents s' cid) \<in> {Pending, Granted, Revoked}
            else status (consents s' cid) = StatusNone"
    by (auto simp: word_less_succ split: if_splits)
qed

lemma reachable_consent_inv: "reachable H s \<Longrightarrow> consent_inv s"
  by (induction rule: reachable.induct) (auto intro: consent_inv_init consent_inv_exec)

lemma revoked_rejects:
  assumes "status (consents s cid) = Revoked"
  shows "grantConsent e s cid h =
           Inl (Revert (if participant (consents s cid) = msg_sender e
                        then ''Consent must be in pending state'' else ''Not the consent owner''))"
    and "revokeConsent e s cid =
           Inl (Revert (if participant (consents s cid) = msg_sender e
                        then ''Consent must be in granted state'' else ''Not the consent owner''))"
    and "updateSpecificPermission H e s cid k g =
           Inl (Revert (if participant (consents s cid) = msg_sender e
                        then ''Consent must be in granted state'' else ''Not the consent owner''))"
  using assms
  by (simp_all add: grantConsent_def revokeConsent_def updateSpecificPermission_def
        modifier_defs Let_def)

text \<open>
  Claim C3. In every reachable state and for every successful transaction, a consent
  that has been created (its id is below \<open>consentCounter\<close>) is stored as Pending,
  Granted or Revoked, and the transaction either keeps its status or moves it from
  Pending to Granted or from Granted to Revoked; a slot not yet used is zero and can
  only be filled by \<open>requestConsent\<close>, as Pending. A consent stored as Revoked is
  left unchanged, as a whole record, by every successful transaction; on it
  \<open>grantConsent\<close> and \<open>revokeConsent\<close> fail for every caller (a failing
  call returns no state), and for the participant they fail with the state reverts
  ``Consent must be in pending state'' and ``Consent must be in granted state''
  (for any other caller \<open>onlyParticipant\<close> rejects first).
\<close>

theorem consent_status_lifecycle:
  assumes r: "reachable H s"
  shows "(exec H e c s = Inr s' \<longrightarrow>
           (if cid < consentCounter s
            then status (consents s cid) \<in> {Pending, Granted, Revoked} \<and>
                 (status (consents s' cid) = status (consents s cid) \<or>
                  status (consents s cid) = Pending \<and> status (consents s' cid) = Granted \<or>
                  status (consents s cid) = Granted \<and> status (consents s' cid) = Revoked)
            else status (consents s cid) = StatusNone \<and>
                 status (consents s' cid) \<in> {StatusNone, Pending})) \<and>
         (status (consents s cid) = Revoked \<longrightarrow>
            (exec H e c s = Inr s' \<longrightarrow> consents s' cid = consents s cid) \<and>
            (\<exists>err. grantConsent e s cid h = Inl err) \<and>
            (\<exists>err. revokeConsent e s cid = Inl err) \<and>
            (participant (consents s cid) = msg_sender e \<longrightarrow>
               grantConsent e s cid h = Inl (Revert ''Consent must be in pending state'') \<and>
               revokeConsent e s cid = Inl (Revert ''Consent must be in granted state'')))"
proof (intro conjI impI)
  assume ex: "exec H e c s = Inr s'"
  from exec_status [OF ex, of cid] consent_inv_slot [OF reachable_consent_inv [OF r], of cid]
  show "if cid < consentCounter s
            then status (consents s cid) \<in> {Pending, Granted, Revoked} \<and>
                 (status (consents s' cid) = status (consents s cid) \<or>
                  status (consents s cid) = Pending \<and> status (consents s' cid) = Granted \<or>
                  status (consents s cid) = Granted \<and> status (consents s' cid) = Revoked)
            else status (consents s cid) = StatusNone \<and>
                 status (consents s' cid) \<in> {StatusNone, Pending}"
    by (auto split: if_splits)
next
  assume rv: "status (consents s cid) = Revoked" and ex: "exec H e c s = Inr s'"
  from consent_inv_slot [OF reachable_consent_inv [OF r], of cid] rv
  have "cid < consentCounter s" by (auto split: if_splits)
  with exec_status [OF ex, of cid] rv show "consents s' cid = consents s cid"
    by (auto split: if_splits)
next
  assume rv: "status (consents s cid) = Revoked"
  from revoked_rejects(1) [OF rv] show "\<exists>err. grantConsent e s cid h = Inl err" by blast
  from revoked_rejects(2) [OF rv] show "\<exists>err. revokeConsent e s cid = Inl err" by blast
next
  assume rv: "status (consents s cid) = Revoked"
    and p: "participant (consents s cid) = msg_sender e"
  from revoked_rejects(1) [OF rv, of e h] p
  show "grantConsent e s cid h = Inl (Revert ''Consent must be in pending state'')" by simp
  from revoked_rejects(2) [OF rv, of e] p
  show "revokeConsent e s cid = Inl (Revert ''Consent must be in granted state'')" by simp
qed

lemma demo_revoked_ok:
  "revokeConsent (tx_env volunteer 1300) (demo_granted 1100 0 1200) 0 = Inr demo_revoked"
  by (simp add: demo_defs)

lemma demo_revoked_consent:
  "consents demo_revoked 0 = \<lparr>participant = volunteer, studyId = 0,
     ipfsConsentDocHash = ''QmDoc'', ipfsCredentialHash = ''QmCred'', status = Revoked,
     timestamp = 1300, expirationDate = 0,
     specificPermissions = (\<lambda>_. False), permissionKeys = []\<rparr>"
  by (simp add: demo_defs)

lemma demo_revoked_reachable: "reachable H demo_revoked"
proof -
  have "reachable H demo_study"
    using reachable_step [OF reachable_init, of H "tx_env researcher 1000"
        "CreateStudy ''QmMeta'' ''Gait'' ''Gait study''" demo_study]
    by (simp add: demo_study_created)
  then have "reachable H (demo_pending 1100 0)"
    using reachable_step [of H demo_study "tx_env researcher 1100"
        "RequestConsent 0 volunteer ''QmDoc'' 0" "demo_pending 1100 0"]
    by (simp add: demo_pending_requested)
  then have "reachable H (demo_granted 1100 0 1200)"
    using reachable_step [of H "demo_pending 1100 0" "tx_env volunteer 1200"
        "GrantConsent 0 ''QmCred''" "demo_granted 1100 0 1200"]
    by (simp add: demo_granted_ok)
  then show ?thesis
    using reachable_step [of H "demo_granted 1100 0 1200" "tx_env volunteer 1300"
        "RevokeConsent 0" demo_revoked]
    by (simp add: demo_revoked_ok)
qed

theorem consent_status_lifecycle_witness:
  "\<forall>H. reachable H demo_revoked \<and>
     status (consents demo_revoked 0) = Revoked \<and>
     grantConsent (tx_env volunteer 1400) demo_revoked 0 ''QmCred2''
       = Inl (Revert ''Consent must be in pending state'') \<and>
     revokeConsent (tx_env volunteer 1400) demo_revoked 0
       = Inl (Revert ''Consent must be in granted state'') \<and>
     (\<exists>s'. exec H (tx_env volunteer 1400) (CreateStudy ''QmMeta2'' ''Sleep'' ''Sleep study'')
              demo_revoked = Inr s' \<and> consents s' 0 = consents demo_revoked 0)"
proof
  fix H
  have rv: "status (consents demo_revoked 0) = Revoked"
    and pt: "participant (consents demo_revoked 0) = msg_sender (tx_env volunteer 1400)"
    by (simp_all add: demo_revoked_consent tx_env_def)
  obtain s' where ex: "exec H (tx_env volunteer 1400)
      (CreateStudy ''QmMeta2'' ''Sleep'' ''Sleep study'') demo_revoked = Inr s'"
    by (simp add: demo_defs)
  note inst = consent_status_lifecycle [OF demo_revoked_reachable, of H "tx_env volunteer 1400"
      "CreateStudy ''QmMeta2'' ''Sleep'' ''Sleep study''" s' 0 "''QmCred2''"]
  from inst rv pt ex
  show "reachable H demo_revoked \<and>
     status (consents demo_revoked 0) = Revoked \<and>
     grantConsent (tx_env volunteer 1400) demo_revoked 0 ''QmCred2''
       = Inl (Revert ''Consent must be in pending state'') \<and>
     revokeConsent (tx_env volunteer 1400) demo_revoked 0
       = Inl (Revert ''Consent must be in granted state'') \<and>
     (\<exists>s'. exec H (tx_env volunteer 1400) (CreateStudy ''QmMeta2'' ''Sleep'' ''Sleep study'')
              demo_revoked = Inr s' \<and> consents s' 0 = consents demo_revoked 0)"
    using demo_revoked_reachable [of H] by simp
qed

subsection \<open>Permissions, revocation, enumeration\<close>

lemma demo_permitted_ok:
  "updateSpecificPermission H (tx_env volunteer 1250) (demo_granted 1100 2000 1200) 0
     ''share_biometrics'' True = Inr (demo_permitted H)"
  by (simp add: demo_defs)

lemma demo_permitted_consent:
  "consents (demo_permitted H) 0 = \<lparr>participant = volunteer, studyId = 0,
     ipfsConsentDocHash = ''QmDoc'', ipfsCredentialHash = ''QmCred'', status = Granted,
     timestamp = 1200, expirationDate = 2000,
     specificPermissions = (\<lambda>_. False)(''share_biometrics'' := True),
     permissionKeys = [''share_biometrics'']\<rparr>"
  by (simp add: demo_defs)

text \<open>
  Claim C5. On a consent stored as Granted, \<open>checkPermission\<close> returns false for
  every key once the deadline is nonzero and the block time is strictly after it,
  whatever the stored permission value; before that it returns the stored value. On a
  consent whose stored status is not Granted it fails with ``Consent not granted''.
\<close>

theorem checkPermission_spec:
  "(status (consents s cid) = Granted \<and> expirationDate (consents s cid) \<noteq> 0 \<and>
    expirationDate (consents s cid) < block_timestamp e \<longrightarrow>
      checkPermission e s cid key = Inr False) \<and>
   (status (consents s cid) = Granted \<and>
    (expirationDate (consents s cid) = 0 \<or>
     \<not> expirationDate (consents s cid) < block_timestamp e) \<longrightarrow>
      checkPermission e s cid key = Inr (specificPermissions (consents s cid) key)) \<and>
   (status (consents s cid) \<noteq> Granted \<longrightarrow>
      checkPermission e s cid key = Inl (Revert ''Consent not granted''))"
proof (intro conjI impI)
  assume "status (consents s cid) = Granted \<and> expirationDate (consents s cid) \<noteq> 0 \<and>
    expirationDate (consents s cid) < block_timestamp e"
  then show "checkPermission e s cid key = Inr False"
    by (simp add: checkPermission_def require_def Let_def word_greater_zero_iff)
next
  assume "status (consents s cid) = Granted \<and>
    (expirationDate (consents s cid) = 0 \<or>
     \<not> expirationDate (consents s cid) < block_timestamp e)"
  then show "checkPermission e s cid key = Inr (specificPermissions (consents s cid) key)"
    by (auto simp: checkPermission_def require_def Let_def)
next
  assume "status (consents s cid) \<noteq> Granted"
  then show "checkPermission e s cid key = Inl (Revert ''Consent not granted'')"
    by (simp add: checkPermission_def require_def Let_def)
qed

theorem checkPermission_spec_witness:
  "\<forall>H. specificPermissions (consents (demo_permitted H) 0) ''share_biometrics'' = True \<and>
     checkPermission (tx_env researcher 2500) (demo_permitted H) 0 ''share_biometrics''
       = Inr False \<and>
     checkPermission (tx_env researcher 1500) (demo_permitted H) 0 ''share_biometrics''
       = Inr True \<and>
     checkPermission (tx_env researcher 1500) demo_revoked 0 ''share_biometrics''
       = Inl (Revert ''Consent not granted'')"
proof
  fix H
  from checkPermission_spec [of "demo_permitted H" 0 "tx_env researcher 2500" "''share_biometrics''"]
       checkPermission_spec [of "demo_permitted H" 0 "tx_env researcher 1500" "''share_biometrics''"]
       checkPermission_spec [of demo_revoked 0 "tx_env researcher 1500" "''share_biometrics''"]
  show "specificPermissions (consents (demo_permitted H) 0) ''share_biometrics'' = True \<and>
     checkPermission (tx_env researcher 2500) (demo_permitted H) 0 ''share_biometrics''
       = Inr False \<and>
     checkPermission (tx_env researcher 1500) (demo_permitted H) 0 ''share_biometrics''
       = Inr True \<and>
     checkPermission (tx_env researcher 1500) demo_revoked 0 ''share_biometrics''
       = Inl (Revert ''Consent not granted'')"
    by (simp add: demo_permitted_consent demo_revoked_consent tx_env_def)
qed

text \<open>
  Claim C9. On a consent stored as Granted, \<open>revokeConsent\<close> called by the
  participant succeeds and writes only the status (Revoked) and the timestamp (the
  block time) of that consent: its permissions map, its ordered key list and its
  credential reference are unchanged, as are every other consent and every other
  storage variable. Called by anyone else it fails and writes nothing.
\<close>

theorem revokeConsent_frame:
  assumes g: "status (consents s cid) = Granted"
  shows "(participant (consents s cid) \<noteq> msg_sender e \<longrightarrow>
            revokeConsent e s cid = Inl (Revert ''Not the consent owner'')) \<and>
         (participant (consents s cid) = msg_sender e \<longrightarrow>
            (\<exists>s'. revokeConsent e s cid = Inr s' \<and>
               consents s' cid =
                 (consents s cid)\<lparr>status := Revoked, timestamp := block_timestamp e\<rparr> \<and>
               specificPermissions (consents s' cid) = specificPermissions (consents s cid) \<and>
               permissionKeys (consents s' cid) = permissionKeys (consents s cid) \<and>
               ipfsCredentialHash (consents s' cid) = ipfsCredentialHash (consents s cid) \<and>
               (\<forall>c. c \<noteq> cid \<longrightarrow> consents s' c = consents s c) \<and>
               studyCounter s' = studyCounter s \<and> studies s' = studies s \<and>
               participantStudies s' = participantStudies s \<and>
               studyParticipants s' = studyParticipants s \<and>
               consentIndex s' = consentIndex s \<and> consentCounter s' = consentCounter s))"
  using g by (simp add: revokeConsent_def modifier_defs Let_def)

theorem revokeConsent_frame_witness:
  "\<forall>H. status (consents (demo_permitted H) 0) = Granted \<and>
     (\<exists>s'. revokeConsent (tx_env volunteer 1300) (demo_permitted H) 0 = Inr s' \<and>
        status (consents s' 0) = Revoked \<and> timestamp (consents s' 0) = 1300 \<and>
        specificPermissions (consents s' 0) ''share_biometrics'' = True \<and>
        permissionKeys (consents s' 0) = [''share_biometrics''] \<and>
        ipfsCredentialHash (consents s' 0) = ''QmCred'') \<and>
     revokeConsent (tx_env researcher 1300) (demo_permitted H) 0
       = Inl (Revert ''Not the consent owner'')"
proof
  fix H
  have g: "status (consents (demo_permitted H) 0) = Granted"
    by (simp add: demo_permitted_consent)
  from revokeConsent_frame [OF g, of "tx_env volunteer 1300"]
  obtain s' where "revokeConsent (tx_env volunteer 1300) (demo_permitted H) 0 = Inr s'"
    and "consents s' 0 =
           (consents (demo_permitted H) 0)\<lparr>status := Revoked,
              timestamp := block_timestamp (tx_env volunteer 1300)\<rparr>"
    by (auto simp: demo_permitted_consent tx_env_def)
  moreover from revokeConsent_frame [OF g, of "tx_env researcher 1300"]
  have "revokeConsent (tx_env researcher 1300) (demo_permitted H) 0
       = Inl (Revert ''Not the consent owner'')"
    by (simp add: demo_permitted_consent tx_env_def researcher_def volunteer_def)
  ultimately show "status (consents (demo_permitted H) 0) = Granted \<and>
     (\<exists>s'. revokeConsent (tx_env volunteer 1300) (demo_permitted H) 0 = Inr s' \<and>
        status (consents s' 0) = Revoked \<and> timestamp (consents s' 0) = 1300 \<and>
        specificPermissions (consents s' 0) ''share_biometrics'' = True \<and>
        permissionKeys (consents s' 0) = [''share_biometrics''] \<and>
        ipfsCredentialHash (consents s' 0) = ''QmCred'') \<and>
     revokeConsent (tx_env researcher 1300) (demo_permitted H) 0
       = Inl (Revert ''Not the consent owner'')"
    using g by (simp add: demo_permitted_consent tx_env_def)
qed

text \<open>
  Claim C10. Every successful \<open>requestConsent\<close> appends the participant to the
  study's participant list and the study to the participant's study list, with no
  check for an entry already there: after two requests for the same pair
  \<open>getStudyParticipants\<close> returns the participant twice more than before and
  \<open>getParticipantStudies\<close> the study twice more, while the pairing index holds
  only the id of the second consent.
\<close>

theorem requestConsent_appends:
  assumes r1: "requestConsent e1 s sid p d1 x1 = Inr (c1, s1)"
    and r2: "requestConsent e2 s1 sid p d2 x2 = Inr (c2, s2)"
  shows "getStudyParticipants s1 sid = Inr (studyParticipants s sid @ [p]) \<and>
         getParticipantStudies s1 p = participantStudies s p @ [sid] \<and>
         getStudyParticipants s2 sid = Inr (studyParticipants s sid @ [p, p]) \<and>
         getParticipantStudies s2 p = participantStudies s p @ [sid, sid] \<and>
         count_list (studyParticipants s2 sid) p = count_list (studyParticipants s sid) p + 2 \<and>
         count_list (getParticipantStudies s2 p) sid
           = count_list (getParticipantStudies s p) sid + 2 \<and>
         consentIndex s1 sid p = c1 \<and> consentIndex s2 sid p = c2 \<and> c2 \<noteq> c1"
proof -
  note a = requestConsent_effect [OF r1] and b = requestConsent_effect [OF r2]
  from a b have "c2 = c1 + 1" by simp
  then have "c2 \<noteq> c1" by simp
  with a b show ?thesis
    by (simp add: getStudyParticipants_def getParticipantStudies_def studyExists_def require_def)
qed

lemma demo_pending_again_ok:
  "requestConsent (tx_env researcher 1400) (demo_pending 1100 0) 0 volunteer ''QmDoc2'' 0
     = Inr (1, demo_pending_again)"
  by (simp add: demo_defs)

theorem requestConsent_appends_witness:
  "requestConsent (tx_env researcher 1100) demo_study 0 volunteer ''QmDoc'' 0
     = Inr (0, demo_pending 1100 0) \<and>
   requestConsent (tx_env researcher 1400) (demo_pending 1100 0) 0 volunteer ''QmDoc2'' 0
     = Inr (1, demo_pending_again) \<and>
   getStudyParticipants demo_pending_again 0 = Inr [volunteer, volunteer] \<and>
   getParticipantStudies demo_pending_again volunteer = [0, 0] \<and>
   consentIndex demo_pending_again 0 volunteer = 1"
  using requestConsent_appends [OF demo_pending_requested demo_pending_again_ok]
    demo_pending_requested [of 1100 0] demo_pending_again_ok
  by (simp add: demo_study_def createStudy_def init_def Let_def)

subsection \<open>Timestamps and the pairing index\<close>

lemma demo_granted_consent:
  "consents (demo_granted t expiry tg) 0 =
     (if expiry = 0 \<or> tg < expiry
      then \<lparr>participant = volunteer, studyId = 0,
        ipfsConsentDocHash = ''QmDoc'', ipfsCredentialHash = ''QmCred'', status = Granted,
        timestamp = tg, expirationDate = expiry,
        specificPermissions = (\<lambda>_. False), permissionKeys = []\<rparr>
      else consents (demo_granted t expiry tg) 0)"
  by (simp add: demo_defs word_greater_zero_iff)

lemma tx_env_sel: "msg_sender (tx_env a t) = a" "block_timestamp (tx_env a t) = t"
  by (simp_all add: tx_env_def)

text \<open>
  Claim C7 says that a consent keeps the time of its request in a field of its own
  after it is granted or revoked. The struct \<open>Consent\<close> has one \<open>timestamp\<close>
  field, and \<open>grantConsent\<close> overwrites it: a request made at time 1100 and
  granted at time 1200 is stored with timestamp 1200, and the stored record is the
  same as for a request made at time 1150, so no field of it tells the request time.
\<close>

theorem request_time_overwritten:
  "timestamp (consents (demo_pending 1100 0) 0) = 1100 \<and>
   grantConsent (tx_env volunteer 1200) (demo_pending 1100 0) 0 ''QmCred''
     = Inr (demo_granted 1100 0 1200) \<and>
   timestamp (consents (demo_granted 1100 0 1200) 0) = 1200 \<and>
   timestamp (consents (demo_pending 1150 0) 0) = 1150 \<and>
   grantConsent (tx_env volunteer 1200) (demo_pending 1150 0) 0 ''QmCred''
     = Inr (demo_granted 1150 0 1200) \<and>
   consents (demo_granted 1150 0 1200) 0 = consents (demo_granted 1100 0 1200) 0"
  by (simp add: demo_pending_consent demo_granted_ok demo_granted_consent [of _ 0 1200])

text \<open>
  Claim C7, as the code has it. The consent has a single \<open>timestamp\<close>:
  \<open>requestConsent\<close> sets it to the block time of the request, and every
  successful \<open>grantConsent\<close> and \<open>revokeConsent\<close> overwrites it with the block
  time of that call; granting and revoking leave the participant, the study id, the
  consent document reference and the deadline unchanged.
\<close>

theorem consent_timestamp_overwritten:
  "(requestConsent e s sid p d x = Inr (cid, s') \<longrightarrow>
      timestamp (consents s' cid) = block_timestamp e) \<and>
   (grantConsent e s cid h = Inr s' \<longrightarrow>
      timestamp (consents s' cid) = block_timestamp e \<and>
      participant (consents s' cid) = participant (consents s cid) \<and>
      studyId (consents s' cid) = studyId (consents s cid) \<and>
      ipfsConsentDocHash (consents s' cid) = ipfsConsentDocHash (consents s cid) \<and>
      expirationDate (consents s' cid) = expirationDate (consents s cid)) \<and>
   (revokeConsent e s cid = Inr s' \<longrightarrow>
      timestamp (consents s' cid) = block_timestamp e \<and>
      participant (consents s' cid) = participant (consents s cid) \<and>
      studyId (consents s' cid) = studyId (consents s cid) \<and>
      ipfsConsentDocHash (consents s' cid) = ipfsConsentDocHash (consents s cid) \<and>
      expirationDate (consents s' cid) = expirationDate (consents s cid))"
proof (intro conjI impI)
  assume "requestConsent e s sid p d x = Inr (cid, s')"
  from requestConsent_effect [OF this]
  show "timestamp (consents s' cid) = block_timestamp e" by simp
next
  assume "grantConsent e s cid h = Inr s'"
  from grantConsent_effect [OF this]
  show "timestamp (consents s' cid) = block_timestamp e"
    "participant (consents s' cid) = participant (consents s cid)"
    "studyId (consents s' cid) = studyId (consents s cid)"
    "ipfsConsentDocHash (consents s' cid) = ipfsConsentDocHash (consents s cid)"
    "expirationDate (consents s' cid) = expirationDate (consents s cid)"
    by simp_all
next
  assume "revokeConsent e s cid = Inr s'"
  from revokeConsent_effect [OF this]
  show "timestamp (consents s' cid) = block_timestamp e"
    "participant (consents s' cid) = participant (consents s cid)"
    "studyId (consents s' cid) = studyId (consents s cid)"
    "ipfsConsentDocHash (consents s' cid) = ipfsConsentDocHash (consents s cid)"
    "expirationDate (consents s' cid) = expirationDate (consents s cid)"
    by simp_all
qed

theorem consent_timestamp_overwritten_witness:
  "requestConsent (tx_env researcher 1100) demo_study 0 volunteer ''QmDoc'' 0
     = Inr (0, demo_pending 1100 0) \<and>
   timestamp (consents (demo_pending 1100 0) 0) = 1100 \<and>
   grantConsent (tx_env volunteer 1200) (demo_pending 1100 0) 0 ''QmCred''
     = Inr (demo_granted 1100 0 1200) \<and>
   timestamp (consents (demo_granted 1100 0 1200) 0) = 1200 \<and>
   revokeConsent (tx_env volunteer 1300) (demo_granted 1100 0 1200) 0 = Inr demo_revoked \<and>
   timestamp (consents demo_revoked 0) = 1300 \<and>
   expirationDate (consents demo_revoked 0) = 0 \<and>
   participant (consents demo_revoked 0) = volunteer"
  using
    consent_timestamp_overwritten [of "tx_env researcher 1100" demo_study 0 volunteer
      "''QmDoc''" 0 0 "demo_pending 1100 0"]
    consent_timestamp_overwritten [of "tx_env volunteer 1200" "demo_pending 1100 0" 0 volunteer
      "''QmDoc''" 0 0 "demo_granted 1100 0 1200" "''QmCred''"]
    consent_timestamp_overwritten [of "tx_env volunteer 1300" "demo_granted 1100 0 1200" 0
      volunteer "''QmDoc''" 0 0 demo_revoked]
  by (simp add: demo_pending_requested demo_granted_ok demo_revoked_ok tx_env_sel
        demo_pending_consent)

lemma getConsentStatus_indexed:
  assumes "sid < studyCounter s" and "consentIndex s sid p \<noteq> 0"
    and "status (consents s (consentIndex s sid p)) = Granted"
    and "expirationDate (consents s (consentIndex s sid p)) = T" and "T \<noteq> 0"
  shows "getConsentStatus e s sid p = Inr (if T < block_timestamp e then Expired else Granted)"
  using assms by (simp add: getConsentStatus_def studyExists_def require_def Let_def
      word_greater_zero_iff)

lemma getConsentStatus_unset:
  "consentIndex s sid p = 0 \<Longrightarrow>
   getConsentStatus e s sid p =
     (if sid < studyCounter s then Inr StatusNone else Inl (Revert ''Study does not exist''))"
  by (simp add: getConsentStatus_def studyExists_def require_def Let_def)

text \<open>
  Claim C4 at the first consent of a deployment. \<open>consentCounter\<close> starts at 0,
  so the first consent has id 0, the value \<open>getConsentStatus\<close> reads as ``no
  consent''. The consent is requested with deadline 2000 and granted at time 1200;
  it is stored as Granted, and \<open>getConsentStatus\<close> returns None both at time 1500
  (the claim: Granted) and at time 2500 (the claim: Expired). For a nonzero pairing
  index the view computes what the claim says (\<open>getConsentStatus_indexed\<close>).
\<close>

theorem first_consent_status_reads_none:
  "createStudy (tx_env researcher 1000) init ''QmMeta'' ''Gait'' ''Gait study''
     = Inr (0, demo_study) \<and>
   requestConsent (tx_env researcher 1100) demo_study 0 volunteer ''QmDoc'' 2000
     = Inr (0, demo_pending 1100 2000) \<and>
   grantConsent (tx_env volunteer 1200) (demo_pending 1100 2000) 0 ''QmCred''
     = Inr (demo_granted 1100 2000 1200) \<and>
   status (consents (demo_granted 1100 2000 1200) 0) = Granted \<and>
   expirationDate (consents (demo_granted 1100 2000 1200) 0) = 2000 \<and>
   consentIndex (demo_granted 1100 2000 1200) 0 volunteer = 0 \<and>
   getConsentStatus (tx_env researcher 1500) (demo_granted 1100 2000 1200) 0 volunteer
     = Inr StatusNone \<and>
   getConsentStatus (tx_env researcher 2500) (demo_granted 1100 2000 1200) 0 volunteer
     = Inr StatusNone"
proof -
  have "consentIndex (demo_granted 1100 2000 1200) 0 volunteer = 0"
    and "studyCounter (demo_granted 1100 2000 1200) = 1"
    by (simp_all add: demo_defs)
  then show ?thesis
    by (simp add: demo_study_created demo_pending_requested demo_granted_ok
        demo_granted_consent [of 1100 2000 1200] getConsentStatus_unset)
qed

text \<open>
  Claim C6 on the freshly deployed contract. Both counters start at 0, not 1: the
  first study has id 0 and the first consent has id 0. After the first
  \<open>requestConsent\<close> the pairing index of the pair is 0 although consent 0 is a
  stored Pending record of that pair, and \<open>getConsentStatus\<close> reports None.
\<close>

theorem first_consent_id_is_zero:
  "studyCounter init = 0 \<and> consentCounter init = 0 \<and>
   createStudy (tx_env researcher 1000) init ''QmMeta'' ''Gait'' ''Gait study''
     = Inr (0, demo_study) \<and>
   requestConsent (tx_env researcher 1100) demo_study 0 volunteer ''QmDoc'' 0
     = Inr (0, demo_pending 1100 0) \<and>
   consentIndex (demo_pending 1100 0) 0 volunteer = 0 \<and>
   participant (consents (demo_pending 1100 0) 0) = volunteer \<and>
   studyId (consents (demo_pending 1100 0) 0) = 0 \<and>
   status (consents (demo_pending 1100 0) 0) = Pending \<and>
   getConsentStatus (tx_env volunteer 1150) (demo_pending 1100 0) 0 volunteer
     = Inr StatusNone"
proof -
  have "consentIndex (demo_pending 1100 0) 0 volunteer = 0"
    and "studyCounter (demo_pending 1100 0) = 1"
    by (simp_all add: demo_defs)
  moreover have "studyCounter init = 0" and "consentCounter init = 0"
    by (simp_all add: init_def)
  ultimately show ?thesis
    by (simp add: demo_study_created demo_pending_requested demo_pending_consent
        getConsentStatus_unset)
qed

section \<open>Properties of the credential verifier\<close>

lemma catch_false_returns: "\<exists>b. catch_false r = Inr b"
  by (cases r) (auto simp: catch_false_def)

lemma split_nonempty: "split sep s \<noteq> []"
  by (induction s) (auto split: list.splits)

lemma split_did: "prefix ''did:ethr:'' did \<Longrightarrow> 2 < length (split CHR '':'' did)"
  by (auto elim!: prefixE split: list.splits simp: split_nonempty)

lemma verifyCredential_no_proof:
  "getProp c ''proof'' = Inl e \<Longrightarrow> verifyCredential lib c = Inr False"
  "getProp c ''proof'' = Inr p \<Longrightarrow> \<not> truthy p \<Longrightarrow> verifyCredential lib c = Inr False"
  by (simp_all add: verifyCredential_def verifyCredential_try_def and_then_def catch_false_def)

lemma verifyCredential_unknown_type:
  "getProp c ''proof'' = Inr p \<Longrightarrow> truthy p \<Longrightarrow> getProp p ''type'' = Inr t \<Longrightarrow>
   t \<noteq> JString ''JwtProof2020'' \<Longrightarrow> t \<noteq> JString ''EcdsaSecp256k1Signature2019'' \<Longrightarrow>
   verifyCredential lib c = Inr False"
  by (simp add: verifyCredential_def verifyCredential_try_def and_then_def catch_false_def)

lemma verifyCredential_ecdsa:
  assumes "map_of kvs ''proof'' = Some (JObject pkvs)"
    and "map_of pkvs ''type'' = Some (JString ''EcdsaSecp256k1Signature2019'')"
  shows "verifyCredential lib (JObject kvs) = verifyEthereumSignature lib (JObject kvs)"
proof -
  obtain b where "verifyEthereumSignature lib (JObject kvs) = Inr b"
    unfolding verifyEthereumSignature_def using catch_false_returns by blast
  with assms show ?thesis
    by (simp add: verifyCredential_def verifyCredential_try_def and_then_def catch_false_def)
qed

lemma verifyEthereumSignature_throws:
  assumes "map_of kvs ''proof'' = Some (JObject pkvs)"
    and "utils_verifyMessage lib
           (utils_keccak256 lib (JSON_stringify lib (JObject (delete ''proof'' kvs))))
           (case map_of pkvs ''jws'' of Some v \<Rightarrow> v | None \<Rightarrow> JUndefined) = Inl e"
  shows "verifyEthereumSignature lib (JObject kvs) = Inr False"
  using assms
  by (simp add: verifyEthereumSignature_def verifyEthereumSignature_try_def and_then_def
      catch_false_def Let_def)

lemma verifyEthereumSignature_recovers:
  assumes "map_of kvs ''proof'' = Some (JObject pkvs)"
    and "utils_verifyMessage lib
           (utils_keccak256 lib (JSON_stringify lib (JObject (delete ''proof'' kvs))))
           (case map_of pkvs ''jws'' of Some v \<Rightarrow> v | None \<Rightarrow> JUndefined) = Inr r"
  shows "verifyEthereumSignature lib (JObject kvs) =
           Inr (\<exists>did. map_of kvs ''issuer'' = Some (JString did) \<and> prefix ''did:ethr:'' did \<and>
                  toLowerCase r = toLowerCase (split CHR '':'' did ! 2))"
proof (cases "map_of kvs ''issuer''")
  case None
  with assms show ?thesis
    by (simp add: verifyEthereumSignature_def verifyEthereumSignature_try_def and_then_def
        catch_false_def Let_def startsWith_def)
next
  case (Some v)
  show ?thesis
  proof (cases v)
    case (JString did)
    with Some assms show ?thesis
      by (simp add: verifyEthereumSignature_def verifyEthereumSignature_try_def and_then_def
          catch_false_def Let_def startsWith_def split_at_def js_toLowerCase_def split_did)
  qed (use Some assms in \<open>simp_all add: verifyEthereumSignature_def
          verifyEthereumSignature_try_def and_then_def catch_false_def Let_def startsWith_def\<close>)
qed

text \<open>
  Claim C8. For every library and every value passed as the credential,
  \<open>verifyCredential\<close> returns a boolean and does not throw. It returns false when
  reading the proof throws (the credential is \<open>null\<close> or \<open>undefined\<close>), when the
  proof is missing or falsy, and when the proof type is neither
  \<open>JwtProof2020\<close> nor \<open>EcdsaSecp256k1Signature2019\<close>. For the signature type
  it returns false when \<open>verifyMessage\<close> throws (a malformed signature), and
  otherwise it returns true exactly when the issuer is a string that starts with
  \<open>did:ethr:\<close> and the lower-cased recovered address equals the lower-cased
  third \<open>:\<close>-separated part of the issuer: a signer that does not match is
  rejected, and letter case does not matter.
\<close>

theorem verifyCredential_rejects:
  "(\<exists>b. verifyCredential lib c = Inr b) \<and>
   (\<forall>e. getProp c ''proof'' = Inl e \<longrightarrow> verifyCredential lib c = Inr False) \<and>
   (\<forall>p. getProp c ''proof'' = Inr p \<and> \<not> truthy p \<longrightarrow> verifyCredential lib c = Inr False) \<and>
   (\<forall>p t. getProp c ''proof'' = Inr p \<and> truthy p \<and> getProp p ''type'' = Inr t \<and>
      t \<noteq> JString ''JwtProof2020'' \<and> t \<noteq> JString ''EcdsaSecp256k1Signature2019'' \<longrightarrow>
      verifyCredential lib c = Inr False) \<and>
   (\<forall>kvs pkvs msg sig.
      c = JObject kvs \<and> map_of kvs ''proof'' = Some (JObject pkvs) \<and>
      map_of pkvs ''type'' = Some (JString ''EcdsaSecp256k1Signature2019'') \<and>
      msg = utils_keccak256 lib (JSON_stringify lib (JObject (delete ''proof'' kvs))) \<and>
      sig = (case map_of pkvs ''jws'' of Some v \<Rightarrow> v | None \<Rightarrow> JUndefined) \<longrightarrow>
      (\<forall>e. utils_verifyMessage lib msg sig = Inl e \<longrightarrow> verifyCredential lib c = Inr False) \<and>
      (\<forall>r. utils_verifyMessage lib msg sig = Inr r \<longrightarrow>
         verifyCredential lib c =
           Inr (\<exists>did. map_of kvs ''issuer'' = Some (JString did) \<and> prefix ''did:ethr:'' did \<and>
                  toLowerCase r = toLowerCase (split CHR '':'' did ! 2))))"
proof (intro conjI allI impI; (elim conjE)?)
  show "\<exists>b. verifyCredential lib c = Inr b"
    unfolding verifyCredential_def by (rule catch_false_returns)
next
  fix e assume "getProp c ''proof'' = Inl e"
  then show "verifyCredential lib c = Inr False" by (rule verifyCredential_no_proof)
next
  fix p assume "getProp c ''proof'' = Inr p" "\<not> truthy p"
  then show "verifyCredential lib c = Inr False" by (rule verifyCredential_no_proof)
next
  fix p t assume "getProp c ''proof'' = Inr p" "truthy p" "getProp p ''type'' = Inr t"
    "t \<noteq> JString ''JwtProof2020''" "t \<noteq> JString ''EcdsaSecp256k1Signature2019''"
  then show "verifyCredential lib c = Inr False" by (rule verifyCredential_unknown_type)
next
  fix kvs pkvs msg sig e
  assume a: "c = JObject kvs" "map_of kvs ''proof'' = Some (JObject pkvs)"
    "map_of pkvs ''type'' = Some (JString ''EcdsaSecp256k1Signature2019'')"
    "msg = utils_keccak256 lib (JSON_stringify lib (JObject (delete ''proof'' kvs)))"
    "sig = (case map_of pkvs ''jws'' of Some v \<Rightarrow> v | None \<Rightarrow> JUndefined)"
    and v: "utils_verifyMessage lib msg sig = Inl e"
  from a v show "verifyCredential lib c = Inr False"
    by (simp add: verifyCredential_ecdsa verifyEthereumSignature_throws)
next
  fix kvs pkvs msg sig r
  assume a: "c = JObject kvs" "map_of kvs ''proof'' = Some (JObject pkvs)"
    "map_of pkvs ''type'' = Some (JString ''EcdsaSecp256k1Signature2019'')"
    "msg = utils_keccak256 lib (JSON_stringify lib (JObject (delete ''proof'' kvs)))"
    "sig = (case map_of pkvs ''jws'' of Some v \<Rightarrow> v | None \<Rightarrow> JUndefined)"
    and v: "utils_verifyMessage lib msg sig = Inr r"
  from a v show "verifyCredential lib c =
           Inr (\<exists>did. map_of kvs ''issuer'' = Some (JString did) \<and> prefix ''did:ethr:'' did \<and>
                  toLowerCase r = toLowerCase (split CHR '':'' did ! 2))"
    by (simp add: verifyCredential_ecdsa verifyEthereumSignature_recovers)
qed


lemma toLowerCase_demo:
  "toLowerCase ''0xAbCdEf'' = ''0xabcdef''"
  "toLowerCase ''0xABCDEF'' = ''0xabcdef''"
  "toLowerCase ''0x123456'' = ''0x123456''"
  by code_simp+

theorem verifyCredential_rejects_witness:
  "verifyCredential demo_lib
     (demo_credential ''did:ethr:0xABCDEF'' ''EcdsaSecp256k1Signature2019'' ''0xgood'')
     = Inr True \<and>
   verifyCredential demo_lib
     (demo_credential ''did:ethr:0x123456'' ''EcdsaSecp256k1Signature2019'' ''0xgood'')
     = Inr False \<and>
   verifyCredential demo_lib
     (demo_credential ''did:web:bioproof.io'' ''EcdsaSecp256k1Signature2019'' ''0xgood'')
     = Inr False \<and>
   verifyCredential demo_lib
     (demo_credential ''did:ethr:0xABCDEF'' ''EcdsaSecp256k1Signature2019'' ''garbage'')
     = Inr False \<and>
   verifyCredential demo_lib
     (demo_credential ''did:ethr:0xABCDEF'' ''Ed25519Signature2020'' ''0xgood'')
     = Inr False \<and>
   verifyCredential demo_lib (JObject [(''issuer'', JString ''did:ethr:0xABCDEF'')])
     = Inr False \<and>
   verifyCredential demo_lib JNull = Inr False"
  using
    verifyCredential_rejects [of demo_lib
      "demo_credential ''did:ethr:0xABCDEF'' ''EcdsaSecp256k1Signature2019'' ''0xgood''"]
    verifyCredential_rejects [of demo_lib
      "demo_credential ''did:ethr:0x123456'' ''EcdsaSecp256k1Signature2019'' ''0xgood''"]
    verifyCredential_rejects [of demo_lib
      "demo_credential ''did:web:bioproof.io'' ''EcdsaSecp256k1Signature2019'' ''0xgood''"]
    verifyCredential_rejects [of demo_lib
      "demo_credential ''did:ethr:0xABCDEF'' ''EcdsaSecp256k1Signature2019'' ''garbage''"]
    verifyCredential_rejects [of demo_lib
      "demo_credential ''did:ethr:0xABCDEF'' ''Ed25519Signature2020'' ''0xgood''"]
    verifyCredential_rejects [of demo_lib "JObject [(''issuer'', JString ''did:ethr:0xABCDEF'')]"]
    verifyCredential_rejects [of demo_lib JNull]
  by (simp add: demo_credential_def demo_lib_def delete_def toLowerCase_demo)

subsection \<open>Round trip of the signed credential\<close>

lemma delete_fresh: "k \<notin> fst ` set kvs \<Longrightarrow> delete k kvs = kvs"
  unfolding delete_def by (induction kvs) auto

lemma delete_set_prop_fresh: "k \<notin> fst ` set kvs \<Longrightarrow> delete k (set_prop k v kvs) = kvs"
  using delete_fresh [of k kvs] by (simp add: set_prop_def delete_def)

lemma map_of_fresh: "k \<notin> fst ` set kvs \<Longrightarrow> map_of kvs k = None"
  by (simp add: map_of_eq_None_iff)

text \<open>The shape of an issued credential: the signed fields, then the proof, whose
  \<open>jws\<close> is the wallet's signature over the digest of the signed fields.\<close>

lemma createConsentCredential_shape:
  assumes w: "wallet h = Some w"
    and c: "createConsentCredential lib h uuid ts created p cid sid extra = Inr cred"
  shows "\<exists>fields pkvs.
           cred = JObject (fields @ [(''proof'', JObject pkvs)]) \<and>
           ''proof'' \<notin> fst ` set fields \<and>
           map_of fields ''issuer'' =
             Some (case issuerDid h of None \<Rightarrow> JNull | Some d \<Rightarrow> JString d) \<and>
           map_of pkvs ''type'' = Some (JString ''EcdsaSecp256k1Signature2019'') \<and>
           map_of pkvs ''jws'' = Some (JString (wallet_signMessage w
             (utils_keccak256 lib (JSON_stringify lib (JObject fields)))))"
  using w c
  by (auto simp: createConsentCredential_def createProof_def and_then_def Let_def
      set_prop_def delete_def split: sum.splits if_splits)

lemma verify_shape:
  assumes "map_of pkvs ''type'' = Some (JString ''EcdsaSecp256k1Signature2019'')"
    and "map_of kvs ''proof'' = Some (JObject pkvs)"
  shows "verifyCredential lib (JObject kvs) =
     (case utils_verifyMessage lib
             (utils_keccak256 lib (JSON_stringify lib (JObject (delete ''proof'' kvs))))
             (case map_of pkvs ''jws'' of Some v \<Rightarrow> v | None \<Rightarrow> JUndefined) of
        Inl e \<Rightarrow> Inr False
      | Inr r \<Rightarrow>
          Inr (\<exists>did. map_of kvs ''issuer'' = Some (JString did) \<and> prefix ''did:ethr:'' did \<and>
                 toLowerCase r = toLowerCase (split CHR '':'' did ! 2)))"
  using assms
  by (simp add: verifyCredential_ecdsa verifyEthereumSignature_throws
      verifyEthereumSignature_recovers split: sum.splits)

text \<open>
  Claim C1. Take a signing library that obeys \<open>signing_laws\<close> and a handler whose
  issuer identity names its wallet (the correct issuer identity: what \<open>init\<close>
  derives from the key). Then every credential that \<open>createConsentCredential\<close>
  returns, for any participant address, ids and additional data, verifies:
  \<open>verifyCredential\<close> returns true. And every credential that carries the
  original proof and issuer but whose content, serialized without the proof, differs
  from the issued one (any altered byte of the claims) is rejected:
  \<open>verifyCredential\<close> returns false.
\<close>

theorem credential_round_trip:
  assumes laws: "signing_laws lib w"
    and w: "wallet h = Some w" and d: "issuerDid h = Some did"
    and n: "issuer_names_wallet did w"
    and c: "createConsentCredential lib h uuid ts created p cid sid extra = Inr cred"
  shows "verifyCredential lib cred = Inr True \<and>
         (\<forall>kvs kvs'. cred = JObject kvs \<and>
            map_of kvs' ''proof'' = map_of kvs ''proof'' \<and>
            map_of kvs' ''issuer'' = map_of kvs ''issuer'' \<and>
            JSON_stringify lib (JObject (delete ''proof'' kvs'))
              \<noteq> JSON_stringify lib (JObject (delete ''proof'' kvs)) \<longrightarrow>
            verifyCredential lib (JObject kvs') = Inr False)"
proof -
  from createConsentCredential_shape [OF w c] d obtain fields pkvs where
    cred: "cred = JObject (fields @ [(''proof'', JObject pkvs)])"
    and fresh: "''proof'' \<notin> fst ` set fields"
    and iss: "map_of fields ''issuer'' = Some (JString did)"
    and ty: "map_of pkvs ''type'' = Some (JString ''EcdsaSecp256k1Signature2019'')"
    and jws: "map_of pkvs ''jws'' = Some (JString (wallet_signMessage w
             (utils_keccak256 lib (JSON_stringify lib (JObject fields)))))"
    by auto
  define kvs where "kvs = fields @ [(''proof'', JObject pkvs)]"
  let ?digest = "utils_keccak256 lib (JSON_stringify lib (JObject fields))"
  from map_of_fresh [OF fresh] have pr: "map_of kvs ''proof'' = Some (JObject pkvs)"
    by (simp add: kvs_def map_add_def)
  from iss have is': "map_of kvs ''issuer'' = Some (JString did)"
    by (simp add: kvs_def map_add_def)
  from delete_fresh [OF fresh] have payload: "delete ''proof'' kvs = fields"
    by (simp add: kvs_def delete_def)
  from cred have cred': "cred = JObject kvs" by (simp add: kvs_def)
  from laws have inj: "inj (utils_keccak256 lib)"
    and good: "\<And>d. utils_verifyMessage lib d (JString (wallet_signMessage w d))
            = Inr (wallet_address w)"
    and bad: "\<And>d d' a. d' \<noteq> d \<Longrightarrow>
        utils_verifyMessage lib d' (JString (wallet_signMessage w d)) = Inr a \<Longrightarrow>
        toLowerCase a \<noteq> toLowerCase (wallet_address w)"
    unfolding signing_laws_def by blast+
  from n have pre: "prefix ''did:ethr:'' did"
    and addr: "toLowerCase (split CHR '':'' did ! 2) = toLowerCase (wallet_address w)"
    unfolding issuer_names_wallet_def by simp_all
  have ok: "verifyCredential lib cred = Inr True"
    unfolding cred'
    by (simp add: verify_shape [OF ty pr] payload jws good is' pre addr)
  have tampered: "verifyCredential lib (JObject kvs') = Inr False"
    if same: "map_of kvs' ''proof'' = map_of kvs ''proof''"
      "map_of kvs' ''issuer'' = map_of kvs ''issuer''"
      and diff: "JSON_stringify lib (JObject (delete ''proof'' kvs'))
              \<noteq> JSON_stringify lib (JObject (delete ''proof'' kvs))"
    for kvs'
  proof -
    let ?digest' = "utils_keccak256 lib (JSON_stringify lib (JObject (delete ''proof'' kvs')))"
    from diff payload inj have ne: "?digest' \<noteq> ?digest"
      by (auto dest: injD)
    from same pr have pr': "map_of kvs' ''proof'' = Some (JObject pkvs)" by simp
    from same is' have iss': "map_of kvs' ''issuer'' = Some (JString did)" by simp
    show ?thesis
    proof (cases "utils_verifyMessage lib ?digest' (JString (wallet_signMessage w ?digest))")
      case (Inl e)
      then show ?thesis by (simp add: verify_shape [OF ty pr'] jws)
    next
      case (Inr a)
      from bad [OF ne Inr] addr have "toLowerCase a \<noteq> toLowerCase (split CHR '':'' did ! 2)"
        by simp
      with Inr show ?thesis by (simp add: verify_shape [OF ty pr'] jws iss')
    qed
  qed
  from ok tampered show ?thesis unfolding cred' by blast
qed


text \<open>The signature path accepts \<open>did:ethr:\<close> identities only: a credential
  issued under any other issuer identity (one set through \<open>ISSUER_DID\<close>) is
  rejected, whatever the library.\<close>

lemma foreign_issuer_rejected:
  assumes w: "wallet h = Some w" and d: "issuerDid h = Some did"
    and f: "\<not> prefix ''did:ethr:'' did"
    and c: "createConsentCredential lib h uuid ts created p cid sid extra = Inr cred"
  shows "verifyCredential lib cred = Inr False"
proof -
  from createConsentCredential_shape [OF w c] d obtain fields pkvs where
    cred: "cred = JObject (fields @ [(''proof'', JObject pkvs)])"
    and fresh: "''proof'' \<notin> fst ` set fields"
    and iss: "map_of fields ''issuer'' = Some (JString did)"
    and ty: "map_of pkvs ''type'' = Some (JString ''EcdsaSecp256k1Signature2019'')"
    by auto
  define kvs where "kvs = fields @ [(''proof'', JObject pkvs)]"
  from map_of_fresh [OF fresh] have pr: "map_of kvs ''proof'' = Some (JObject pkvs)"
    by (simp add: kvs_def map_add_def)
  from iss have is': "map_of kvs ''issuer'' = Some (JString did)"
    by (simp add: kvs_def map_add_def)
  from cred have "cred = JObject kvs" by (simp add: kvs_def)
  with f is' show ?thesis
    by (simp add: verify_shape [OF ty pr] split: sum.splits)
qed

lemma split_no_sep: "sep \<notin> set s \<Longrightarrow> split sep s = [s]"
  by (induction s) auto

lemma default_issuer_names_wallet:
  "CHR '':'' \<notin> set (wallet_address w) \<Longrightarrow>
   issuer_names_wallet (''did:ethr:'' @ wallet_address w) w"
  by (simp add: issuer_names_wallet_def split_no_sep)

lemma handler_init_default:
  assumes "ISSUER_PRIVATE_KEY env = Some k" and "k \<noteq> []" and "new_Wallet lib k = Inr w"
    and "ISSUER_DID env = None"
  shows "handler_init lib env =
           \<lparr>wallet = Some w, issuerDid = Some (''did:ethr:'' @ wallet_address w)\<rparr>"
  using assms by (simp add: handler_init_def)

lemma createConsentCredential_succeeds:
  assumes "wallet h = Some w" and "utils_getAddress lib p = Inr a"
  shows "\<exists>cred. createConsentCredential lib h uuid ts created p cid sid (JObject extra) = Inr cred"
  using assms
  by (simp add: createConsentCredential_def createProof_def and_then_def Let_def)

lemma ideal_signing_laws: "signing_laws ideal_lib ideal_wallet"
  by (auto simp: signing_laws_def ideal_lib_def ideal_wallet_def inj_def)

lemma demo_handler_eq:
  "demo_handler = \<lparr>wallet = Some ideal_wallet, issuerDid = Some ''did:ethr:0xAbCdEf''\<rparr>"
  unfolding demo_handler_def
  by (subst handler_init_default [of _ "''key''" _ ideal_wallet])
     (simp_all add: ideal_lib_def ideal_wallet_def)

lemma demo_issued_ok:
  "createConsentCredential ideal_lib demo_handler ''uuid-1''
     ''2025-01-01T00:00:00.000Z'' ''2025-01-01T00:00:01.000Z'' ''0xB0b'' 0 0
     (JObject [(''purpose'', JString ''research'')]) = Inr demo_issued"
proof -
  have "\<exists>cred. createConsentCredential ideal_lib demo_handler ''uuid-1''
     ''2025-01-01T00:00:00.000Z'' ''2025-01-01T00:00:01.000Z'' ''0xB0b'' 0 0
     (JObject [(''purpose'', JString ''research'')]) = Inr cred"
    by (rule createConsentCredential_succeeds [where w = ideal_wallet and a = "''0xB0b''"])
       (simp_all add: demo_handler_eq ideal_lib_def)
  then show ?thesis unfolding demo_issued_def by auto
qed

lemma demo_tampered_facts:
  "demo_issued = JObject (spread demo_issued)"
  "map_of (spread demo_tampered) ''proof'' = map_of (spread demo_issued) ''proof''"
  "map_of (spread demo_tampered) ''issuer'' = map_of (spread demo_issued) ''issuer''"
  "JSON_stringify ideal_lib (JObject (delete ''proof'' (spread demo_tampered)))
     \<noteq> JSON_stringify ideal_lib (JObject (delete ''proof'' (spread demo_issued)))"
  by code_simp+

lemma issuer_names_ideal: "issuer_names_wallet ''did:ethr:0xAbCdEf'' ideal_wallet"
  using default_issuer_names_wallet [of ideal_wallet] by (simp add: ideal_wallet_def)

theorem credential_round_trip_witness:
  "signing_laws ideal_lib ideal_wallet \<and>
   wallet demo_handler = Some ideal_wallet \<and>
   issuerDid demo_handler = Some ''did:ethr:0xAbCdEf'' \<and>
   issuer_names_wallet ''did:ethr:0xAbCdEf'' ideal_wallet \<and>
   createConsentCredential ideal_lib demo_handler ''uuid-1''
     ''2025-01-01T00:00:00.000Z'' ''2025-01-01T00:00:01.000Z'' ''0xB0b'' 0 0
     (JObject [(''purpose'', JString ''research'')]) = Inr demo_issued \<and>
   verifyCredential ideal_lib demo_issued = Inr True \<and>
   verifyCredential ideal_lib demo_tampered = Inr False"
proof -
  have w: "wallet demo_handler = Some ideal_wallet"
    and d: "issuerDid demo_handler = Some ''did:ethr:0xAbCdEf''"
    by (simp_all add: demo_handler_eq)
  note rt = credential_round_trip [OF ideal_signing_laws w d issuer_names_ideal demo_issued_ok]
  from rt have ok: "verifyCredential ideal_lib demo_issued = Inr True" by simp
  from rt demo_tampered_facts
  have "verifyCredential ideal_lib (JObject (spread demo_tampered)) = Inr False" by blast
  then have bad: "verifyCredential ideal_lib demo_tampered = Inr False"
    by (simp add: demo_tampered_def)
  from ideal_signing_laws w d issuer_names_ideal demo_issued_ok ok bad show ?thesis by simp
qed

end
